theory Spec2Isabelle
  imports Main
begin

section \<open>Data model of the session module\<close>

text \<open>
  The module under study is the server's session middleware: the header and cookie
  readers, the two cookie minting helpers, \<open>almostExpired\<close>, \<open>promoteDecodedToSession\<close>,
  the association middleware \<open>routeAssociateAndRefresh\<close>, the mutation guard
  \<open>routeAuthenticateForMutation\<close> and \<open>promiseAuthenticateForMutation\<close>, together with
  the member registry and the \<open>refreshSub\<close> option and error handler of the server.

  A JavaScript value that is either a string or \<open>undefined\<close> is a \<open>string option\<close>.
\<close>

type_synonym tracker = string

text \<open>
  An error object. \<open>httpErrors(401, msg)\<close> builds one whose \<open>status\<close> is 401; an error
  that carries no \<open>status\<close> property has \<open>status = None\<close>. The \<open>name\<close> tells the
  kinds of error apart: those built by \<open>httpErrors\<close>, the \<open>TypeError\<close> of the runtime
  and the errors of the token library.
\<close>

record error =
  name :: string
  status :: "nat option"
  message :: string

definition httpErrors :: "nat \<Rightarrow> string \<Rightarrow> error" where
  "httpErrors code msg = \<lparr>name = ''HttpError'', status = Some code, message = msg\<rparr>"

text \<open>
  The \<open>TypeError\<close> the runtime raises when a property is read from \<open>undefined\<close> or
  \<open>null\<close>.
\<close>

definition typeError :: "string \<Rightarrow> error" where
  "typeError prop = \<lparr>name = ''TypeError'', status = None,
     message = ''Cannot read property '' @ prop @ '' of undefined''\<rparr>"

text \<open>
  The \<open>scope\<close> claim: a single string (\<open>'refresh'\<close> or \<open>'session'\<close>), or an array of
  strings (\<open>'session'\<close> plus \<open>'sensitive'\<close> and or \<open>'moderate'\<close>).
\<close>

datatype scope = ScopeString string | ScopeArray "string list"

text \<open>
  The object handed to \<open>jsonWebToken.sign\<close>, and the decoded token, which has the
  \<open>iat\<close> and \<open>exp\<close> claims (in seconds) in addition.
\<close>

record payload =
  jti :: string
  iss :: string
  sub :: "tracker option"
  scope :: scope

record claims = payload +
  iat :: int
  exp :: int

text \<open>
  The \<open>jsonwebtoken\<close> package is not part of the source; the module is modelled for
  any implementation of the three functions it calls. \<open>'t\<close> is the representation of an
  encoded token. \<open>jwt_sign\<close> takes the payload, the secret and \<open>expiresIn\<close> (seconds)
  and calls back with an error or the token; \<open>jwt_verify\<close> takes the token (or
  \<open>undefined\<close>), the secret and the expected issuer and calls back with an error or the
  decoded claims; \<open>jwt_decode\<close> returns the claims or \<open>null\<close>. The package reads the
  clock by itself.
\<close>

record 't jwt_library =
  jwt_sign :: "payload \<Rightarrow> string \<Rightarrow> int \<Rightarrow> error + 't"
  jwt_verify :: "'t option \<Rightarrow> string \<Rightarrow> string \<Rightarrow> error + claims"
  jwt_decode :: "'t \<Rightarrow> claims option"

text \<open>
  The options object. \<open>refreshSub\<close> is the caller's revocation check; it returns a
  promise, which resolves to a subject (\<open>Inr\<close>) or is rejected (\<open>Inl\<close>), and it may
  change what it owns: the state \<open>'w\<close> (the member registry and \<open>req.member\<close>).
\<close>

record 'w options =
  opt_iss :: string
  secret :: string
  refreshMaxAge :: int
  sessionMaxAge :: int
  sessionEarlyRefresh :: int
  refreshSub :: "'w \<Rightarrow> tracker option \<Rightarrow> (error + tracker option) \<times> 'w"

text \<open>
  What the middleware reads of the request: the \<open>Authorization\<close> header, the cookies
  parsed by \<open>cookie-parser\<close> and \<open>req.secure\<close>.
\<close>

record 't request =
  authorization :: "string option"
  cookies :: "string \<rightharpoonup> 't"
  secure :: bool

text \<open>One call of \<open>res.cookie(name, value, attributes)\<close>.\<close>

record 't cookie =
  cookie_name :: string
  cookie_value :: 't
  httpOnly :: bool
  cookie_secure :: bool
  maxAge :: "int option"

text \<open>
  \<open>req.session\<close>. A flag that is absent on the object is \<open>False\<close>; an absent session
  object and the empty object are both \<open>empty_session\<close>, as the first statement of each
  middleware, \<open>req.session = req.session || {}\<close>, makes them the same.
\<close>

record session =
  session_sub :: "tracker option"
  sensitive :: bool
  moderate :: bool
  mutation :: bool
  decoded :: "claims option"

definition empty_session :: session where
  "empty_session = \<lparr>session_sub = None, sensitive = False, moderate = False,
     mutation = False, decoded = None\<rparr>"

text \<open>
  What one request changes: the session context, the cookies written on the response (in
  the order of the calls), the calls of \<open>next\<close> (in order; \<open>None\<close> is \<open>next()\<close>),
  an exception raised in a callback that nothing catches, the number of identifiers drawn
  from \<open>uuidV4\<close>, and the state \<open>refreshSub\<close> owns.
\<close>

record ('t, 'w) state =
  session :: session
  res_cookies :: "'t cookie list"
  next_calls :: "error option list"
  thrown :: "error option"
  uuid_calls :: nat
  world :: 'w

text \<open>The clock (\<open>Date.now()\<close>, in milliseconds) and the source of \<open>uuidV4()\<close>.\<close>

record env =
  now :: int
  uuidV4 :: "nat \<Rightarrow> string"

definition cookieNames_refresh :: string where
  "cookieNames_refresh = ''refresh.jwt''"

definition cookieNames_session :: string where
  "cookieNames_session = ''session.jwt''"

definition call_next :: "error option \<Rightarrow> ('t, 'w) state \<Rightarrow> ('t, 'w) state" where
  "call_next err st = st\<lparr>next_calls := next_calls st @ [err]\<rparr>"

section \<open>Reading credentials\<close>

text \<open>\<open>String.prototype.split\<close> with a one-character separator.\<close>

fun split :: "char \<Rightarrow> string \<Rightarrow> string list" where
  "split sep [] = [[]]"
| "split sep (c # cs) =
     (if c = sep then [] # split sep cs
      else (case split sep cs of [] \<Rightarrow> [[c]] | w # ws \<Rightarrow> (c # w) # ws))"

text \<open>The test \<open>/^Bearer$/i\<close>: the six letters, each in either case.\<close>

definition is_bearer :: "string \<Rightarrow> bool" where
  "is_bearer scheme = list_all2 (\<lambda>c (u, l). c = u \<or> c = l) scheme (zip ''BEARER'' ''bearer'')"

text \<open>
  \<open>authenticateHeaderIfPresent\<close>: the result is what \<open>done\<close> is called with, an error
  or the decoded claims, \<open>None\<close> when the header is absent or empty. The destructuring
  \<open>[scheme, jwt, ...rest]\<close> leaves \<open>jwt\<close> undefined when the header has one part only;
  \<open>split\<close> returns one part at least (\<open>split_nonempty\<close> below), so \<open>scheme\<close> is
  always its first.
\<close>

definition authenticateHeaderIfPresent ::
  "string jwt_library \<Rightarrow> string request \<Rightarrow> 'w options \<Rightarrow> error + claims option" where
  "authenticateHeaderIfPresent lib req options =
     (case authorization req of
        None \<Rightarrow> Inr None
      | Some header \<Rightarrow>
          if header = [] then Inr None
          else
            (let parts = split CHR '' '' header;
                 scheme = hd parts;
                 jwt = (case tl parts of [] \<Rightarrow> None | j # _ \<Rightarrow> Some j);
                 rest = drop 2 parts
             in if rest \<noteq> [] then Inl (httpErrors 401 ''credentials bad format'')
                else if \<not> is_bearer scheme then Inl (httpErrors 401 ''credentials bad scheme'')
                else (case jwt_verify lib jwt (secret options) (opt_iss options) of
                        Inl err \<Rightarrow> Inl err
                      | Inr d \<Rightarrow> Inr (Some d))))"

text \<open>
  \<open>authenticateCookie\<close>: an absent or empty cookie is \<open>done()\<close>. The second test of the
  source, \<open>if (!jwt)\<close>, repeats the first on the same value and never fires.
\<close>

definition authenticateCookie ::
  "string jwt_library \<Rightarrow> string request \<Rightarrow> string \<Rightarrow> 'w options \<Rightarrow> error + claims option" where
  "authenticateCookie lib req cname options =
     (case cookies req cname of
        None \<Rightarrow> Inr None
      | Some jwt \<Rightarrow>
          if jwt = [] then Inr None
          else (case jwt_verify lib (Some jwt) (secret options) (opt_iss options) of
                  Inl err \<Rightarrow> Inl err
                | Inr d \<Rightarrow> Inr (Some d)))"

text \<open>\<open>!req.cookies[name]\<close>: the cookie is absent or the empty string.\<close>

definition cookie_missing :: "string request \<Rightarrow> string \<Rightarrow> bool" where
  "cookie_missing req cname = (case cookies req cname of None \<Rightarrow> True | Some v \<Rightarrow> v = [])"

section \<open>Minting cookies\<close>

definition newRefreshCookie ::
  "'t jwt_library \<Rightarrow> env \<Rightarrow> 't request \<Rightarrow> tracker option \<Rightarrow> 'w options \<Rightarrow> ('t, 'w) state
     \<Rightarrow> (error + 't) \<times> ('t, 'w) state" where
  "newRefreshCookie lib e req s options st =
     (let st1 = st\<lparr>uuid_calls := Suc (uuid_calls st)\<rparr>
      in case jwt_sign lib
                \<lparr>jti = uuidV4 e (uuid_calls st), iss = opt_iss options, sub = s,
                 scope = ScopeString ''refresh''\<rparr>
                (secret options) (refreshMaxAge options div 1000) of
           Inl err \<Rightarrow> (Inl err, st1)
         | Inr jwt \<Rightarrow>
             (Inr jwt,
              st1\<lparr>res_cookies := res_cookies st1 @
                     [\<lparr>cookie_name = cookieNames_refresh, cookie_value = jwt, httpOnly = True,
                       cookie_secure = secure req, maxAge = Some (refreshMaxAge options)\<rparr>]\<rparr>))"

definition newSessionCookie ::
  "'t jwt_library \<Rightarrow> env \<Rightarrow> 't request \<Rightarrow> tracker option \<Rightarrow> 'w options \<Rightarrow> ('t, 'w) state
     \<Rightarrow> (error + 't) \<times> ('t, 'w) state" where
  "newSessionCookie lib e req s options st =
     (let st1 = st\<lparr>uuid_calls := Suc (uuid_calls st)\<rparr>
      in case jwt_sign lib
                \<lparr>jti = uuidV4 e (uuid_calls st), iss = opt_iss options, sub = s,
                 scope = ScopeString ''session''\<rparr>
                (secret options) (sessionMaxAge options div 1000) of
           Inl err \<Rightarrow> (Inl err, st1)
         | Inr jwt \<Rightarrow>
             (Inr jwt,
              st1\<lparr>res_cookies := res_cookies st1 @
                     [\<lparr>cookie_name = cookieNames_session, cookie_value = jwt, httpOnly = False,
                       cookie_secure = secure req, maxAge = None\<rparr>]\<rparr>))"

definition newRefreshAndSessionCookie ::
  "'t jwt_library \<Rightarrow> env \<Rightarrow> 't request \<Rightarrow> tracker option \<Rightarrow> 'w options \<Rightarrow> ('t, 'w) state
     \<Rightarrow> (error + 't) \<times> ('t, 'w) state" where
  "newRefreshAndSessionCookie lib e req s options st =
     (case newRefreshCookie lib e req s options st of
        (Inl err, st1) \<Rightarrow> (Inl err, st1)
      | (Inr jwt, st1) \<Rightarrow> newSessionCookie lib e req s options st1)"

section \<open>Expiry and promotion\<close>

text \<open>
  \<open>almostExpired(decoded, options)\<close> reads \<open>options.sessionEarlyRefresh\<close>. Its second
  argument is a JavaScript value: the options object, or, as at each of the three call
  sites, which pass \<open>options.sessionEarlyRefresh\<close>, a number. Reading the property off
  a number gives \<open>undefined\<close>; then \<open>Date.now() + undefined\<close> is \<open>NaN\<close>,
  \<open>Math.floor(NaN / 1000)\<close> is \<open>NaN\<close> and \<open>NaN >= decoded.exp\<close> is \<open>false\<close>.
\<close>

datatype 'o js_value = JsObject 'o | JsNumber int

definition get_sessionEarlyRefresh :: "'w options js_value \<Rightarrow> int option" where
  "get_sessionEarlyRefresh v =
     (case v of JsObject options \<Rightarrow> Some (sessionEarlyRefresh options) | JsNumber n \<Rightarrow> None)"

definition almostExpired :: "env \<Rightarrow> claims \<Rightarrow> 'w options js_value \<Rightarrow> bool" where
  "almostExpired e d v =
     (case get_sessionEarlyRefresh v of
        None \<Rightarrow> False
      | Some margin \<Rightarrow> (now e + margin) div 1000 \<ge> exp d)"

text \<open>
  \<open>promoteDecodedToSession\<close> returns an object with \<open>sub\<close> and, for each of the two
  permissions the scope includes, that flag set. Reading \<open>decoded.sub\<close> of an absent
  \<open>decoded\<close> raises a \<open>TypeError\<close>.
\<close>

record promoted =
  promoted_sub :: "tracker option"
  promoted_sensitive :: bool
  promoted_moderate :: bool

definition scopeArray :: "scope \<Rightarrow> string list" where
  "scopeArray sc = (case sc of ScopeArray xs \<Rightarrow> xs | ScopeString x \<Rightarrow> [x])"

definition promoteDecodedToSession :: "claims option \<Rightarrow> error + promoted" where
  "promoteDecodedToSession dec =
     (case dec of
        None \<Rightarrow> Inl (typeError ''sub'')
      | Some d \<Rightarrow>
          Inr \<lparr>promoted_sub = sub d,
               promoted_sensitive = (''sensitive'' \<in> set (scopeArray (scope d))),
               promoted_moderate = (''moderate'' \<in> set (scopeArray (scope d)))\<rparr>)"

text \<open>
  \<open>_.extend(req.session, promoted)\<close>: \<open>sub\<close> is overwritten; a flag is set when the
  promoted object has it and is left as it was otherwise.
\<close>

definition extend_session :: "session \<Rightarrow> promoted \<Rightarrow> session" where
  "extend_session s p =
     s\<lparr>session_sub := promoted_sub p,
       sensitive := (promoted_sensitive p \<or> sensitive s),
       moderate := (promoted_moderate p \<or> moderate s)\<rparr>"

text \<open>\<open>_.get(decoded, 'sub')\<close>: \<open>undefined\<close> when \<open>decoded\<close> is.\<close>

definition get_sub :: "claims option \<Rightarrow> tracker option" where
  "get_sub dec = (case dec of None \<Rightarrow> None | Some d \<Rightarrow> sub d)"

section \<open>The association middleware\<close>

text \<open>
  \<open>nextWithNewSession\<close>. The callback of the signing runs outside the promise chain of
  the caller, so the \<open>TypeError\<close> of promoting an undecodable token is caught by nothing.
\<close>

definition nextWithNewSession ::
  "'t jwt_library \<Rightarrow> env \<Rightarrow> 'w options \<Rightarrow> 't request \<Rightarrow> tracker option \<Rightarrow> ('t, 'w) state
     \<Rightarrow> ('t, 'w) state" where
  "nextWithNewSession lib e options req validSub st =
     (case newRefreshAndSessionCookie lib e req validSub options st of
        (Inl err, st1) \<Rightarrow> call_next (Some err) st1
      | (Inr jwt, st1) \<Rightarrow>
          (let st2 = st1\<lparr>session := (session st1)\<lparr>decoded := jwt_decode lib jwt\<rparr>\<rparr>
           in case promoteDecodedToSession (decoded (session st2)) of
                Inl err \<Rightarrow> st2\<lparr>thrown := Some err\<rparr>
              | Inr p \<Rightarrow> call_next None (st2\<lparr>session := extend_session (session st2) p\<rparr>)))"

text \<open>
  The two refresh branches of \<open>nextWithExistingSession\<close>. In the first, the driving
  credential is not a refresh token and the refresh cookie is re-verified; after
  \<open>next(err || httpErrors(401, 'credentials mismatch'))\<close> the callback does not return,
  so the statement that follows it, \<open>newSessionCookie(..., req.session.sub, ...)\<close>, runs
  on the cleared session as well.
\<close>

definition refreshSessionFromCookie ::
  "string jwt_library \<Rightarrow> env \<Rightarrow> 'w options \<Rightarrow> string request \<Rightarrow> (string, 'w) state
     \<Rightarrow> (string, 'w) state" where
  "refreshSessionFromCookie lib e options req st =
     (let r = authenticateCookie lib req cookieNames_refresh options;
          err = (case r of Inl x \<Rightarrow> Some x | Inr _ \<Rightarrow> None);
          refreshDecoded = (case r of Inl _ \<Rightarrow> None | Inr x \<Rightarrow> x);
          st1 = (if err \<noteq> None \<or> session_sub (session st) \<noteq> get_sub refreshDecoded
                 then call_next
                        (Some (case err of Some x \<Rightarrow> x
                               | None \<Rightarrow> httpErrors 401 ''credentials mismatch''))
                        (st\<lparr>session := empty_session\<rparr>)
                 else st)
      in case newSessionCookie lib e req (session_sub (session st1)) options st1 of
           (Inl err2, st2) \<Rightarrow> call_next (Some err2) st2
         | (Inr jwt, st2) \<Rightarrow> call_next None st2)"

definition loadSessionCookie ::
  "string jwt_library \<Rightarrow> env \<Rightarrow> 'w options \<Rightarrow> string request \<Rightarrow> (string, 'w) state
     \<Rightarrow> (string, 'w) state" where
  "loadSessionCookie lib e options req st =
     (case authenticateCookie lib req cookieNames_session options of
        Inr (Some sessionDecoded) \<Rightarrow>
          if sub sessionDecoded = session_sub (session st)
             \<and> \<not> almostExpired e sessionDecoded
                   (JsNumber (sessionEarlyRefresh options) :: 'w options js_value)
          then call_next None st
          else (case newSessionCookie lib e req (session_sub (session st)) options st of
                  (Inl err2, st2) \<Rightarrow> call_next (Some err2) st2
                | (Inr jwt, st2) \<Rightarrow> call_next None st2)
      | _ \<Rightarrow>
          (case newSessionCookie lib e req (session_sub (session st)) options st of
             (Inl err2, st2) \<Rightarrow> call_next (Some err2) st2
           | (Inr jwt, st2) \<Rightarrow> call_next None st2))"

text \<open>
  \<open>nextWithExistingSession\<close>. \<open>Inl\<close> is an exception, which the caller's
  \<open>.catch\<close> receives: that of \<open>promoteDecodedToSession\<close>, raised before anything is
  changed (after it \<open>req.session.decoded\<close> is an object, so reading its \<open>scope\<close>
  raises nothing). The last \<open>else\<close> of the source (neither \<open>!== 'refresh'\<close> nor
  \<open>=== 'refresh'\<close>) cannot be reached.
\<close>

definition nextWithExistingSession ::
  "string jwt_library \<Rightarrow> env \<Rightarrow> 'w options \<Rightarrow> string request \<Rightarrow> claims option
     \<Rightarrow> (string, 'w) state \<Rightarrow> error + (string, 'w) state" where
  "nextWithExistingSession lib e options req dec st =
     (case promoteDecodedToSession dec of
        Inl err \<Rightarrow> Inl err
      | Inr p \<Rightarrow>
          (let st1 = st\<lparr>session := (extend_session (session st) p)\<lparr>decoded := dec\<rparr>\<rparr>
           in if cookie_missing req cookieNames_refresh then Inr (call_next None st1)
              else
                (case decoded (session st1) of
                   None \<Rightarrow> Inl (typeError ''scope'')
                 | Some d \<Rightarrow>
                     if scope d \<noteq> ScopeString ''refresh''
                     then
                       (if \<not> almostExpired e d
                                (JsNumber (sessionEarlyRefresh options) :: 'w options js_value)
                        then Inr (call_next None st1)
                        else Inr (refreshSessionFromCookie lib e options req st1))
                     else Inr (loadSessionCookie lib e options req st1))))"

text \<open>
  What both branches of the entry point do with the promise of \<open>refreshSub\<close>:
  \<open>.then(validSub => ...)\<close> and \<open>.catch(reason => next(reason))\<close>. The header branch
  sets \<open>req.session.mutation = true\<close> before it continues with the existing session.
\<close>

definition afterRefreshSub ::
  "string jwt_library \<Rightarrow> env \<Rightarrow> 'w options \<Rightarrow> string request \<Rightarrow> bool \<Rightarrow> claims option
     \<Rightarrow> (string, 'w) state \<Rightarrow> (string, 'w) state" where
  "afterRefreshSub lib e options req fromHeader dec st =
     (case refreshSub options (world st) (get_sub dec) of
        (Inl reason, w) \<Rightarrow> call_next (Some reason) (st\<lparr>world := w\<rparr>)
      | (Inr validSub, w) \<Rightarrow>
          (let st1 = st\<lparr>world := w\<rparr>
           in if validSub = get_sub dec
              then
                (let st2 = (if fromHeader
                            then st1\<lparr>session := (session st1)\<lparr>mutation := True\<rparr>\<rparr>
                            else st1)
                 in case nextWithExistingSession lib e options req dec st2 of
                      Inl reason \<Rightarrow> call_next (Some reason) st2
                    | Inr st3 \<Rightarrow> st3)
              else nextWithNewSession lib e options req validSub st1))"

text \<open>\<open>if (req.session.sub)\<close>: the subject is present and not the empty string.\<close>

definition truthy :: "string option \<Rightarrow> bool" where
  "truthy v = (case v of None \<Rightarrow> False | Some s \<Rightarrow> s \<noteq> [])"

definition doRouteAssociateAndRefresh ::
  "string jwt_library \<Rightarrow> env \<Rightarrow> 'w options \<Rightarrow> string request \<Rightarrow> (string, 'w) state
     \<Rightarrow> (string, 'w) state" where
  "doRouteAssociateAndRefresh lib e options req st =
     (if truthy (session_sub (session st)) then call_next None st
      else
        (case authenticateHeaderIfPresent lib req options of
           Inl err \<Rightarrow> call_next (Some err) st
         | Inr (Some d) \<Rightarrow> afterRefreshSub lib e options req True (Some d) st
         | Inr None \<Rightarrow>
             (case authenticateCookie lib req cookieNames_refresh options of
                Inl err \<Rightarrow> call_next (Some err) st
              | Inr dec \<Rightarrow> afterRefreshSub lib e options req False dec st)))"

section \<open>The mutation guard and the standalone entry point\<close>

definition doRouteAuthenticateForMutation ::
  "string jwt_library \<Rightarrow> 'w options \<Rightarrow> string request \<Rightarrow> (string, 'w) state
     \<Rightarrow> (string, 'w) state" where
  "doRouteAuthenticateForMutation lib options req st =
     (if mutation (session st) then call_next None st
      else
        (case authenticateHeaderIfPresent lib req options of
           Inl err \<Rightarrow> call_next (Some err) st
         | Inr None \<Rightarrow> call_next (Some (httpErrors 401 ''credentials required'')) st
         | Inr (Some d) \<Rightarrow>
             if session_sub (session st) \<noteq> sub d
             then call_next (Some (httpErrors 401 ''credentials mismatch'')) st
             else call_next None (st\<lparr>session := (session st)\<lparr>mutation := True\<rparr>\<rparr>)))"

text \<open>
  \<open>promiseAuthenticateForMutation\<close>: the promise is rejected with the verification
  error or resolves to \<open>decoded.sub\<close>.
\<close>

definition promiseAuthenticateForMutation ::
  "'t jwt_library \<Rightarrow> 'w options \<Rightarrow> 't option \<Rightarrow> error + tracker option" where
  "promiseAuthenticateForMutation lib options jwtSession =
     (case jwt_verify lib jwtSession (secret options) (opt_iss options) of
        Inl err \<Rightarrow> Inl err
      | Inr d \<Rightarrow> Inr (sub d))"

section \<open>The member registry and the server's configuration\<close>

text \<open>
  A member, and the state the server's \<open>refreshSub\<close> owns: the map
  \<open>trackerToMember\<close> (its keys are JavaScript values, a string or \<open>undefined\<close>), the
  number of draws from \<open>Math.random\<close> made by \<open>generateTracker\<close>, and \<open>req.member\<close>.
\<close>

record member =
  handle :: string
  trackers :: "tracker list"

record registry =
  trackerToMember :: "tracker option \<rightharpoonup> member"
  random_calls :: nat
  req_member :: "member option"

text \<open>
  \<open>Member.generateTracker\<close>: the identifier is a function of the random draw; \<open>rnd\<close>
  gives the identifier of each draw.
\<close>

definition generateTracker :: "(nat \<Rightarrow> tracker) \<Rightarrow> registry \<Rightarrow> tracker \<times> registry" where
  "generateTracker rnd w = (rnd (random_calls w), w\<lparr>random_calls := Suc (random_calls w)\<rparr>)"

text \<open>
  \<open>Member.insert(tracker, handle)\<close>: \<open>handle || Member.generateTracker()\<close> is the
  handle, \<open>tracker ? [tracker] : []\<close> the list of trackers, and the member is stored
  under its handle and then under the tracker.
\<close>

definition Member_insert ::
  "(nat \<Rightarrow> tracker) \<Rightarrow> tracker option \<Rightarrow> string option \<Rightarrow> registry \<Rightarrow> member \<times> registry" where
  "Member_insert rnd tracker h w =
     (let (h1, w1) = (case h of
                        None \<Rightarrow> generateTracker rnd w
                      | Some x \<Rightarrow> if x = [] then generateTracker rnd w else (x, w));
          m = \<lparr>handle = h1,
               trackers = (case tracker of None \<Rightarrow> [] | Some t \<Rightarrow> if t = [] then [] else [t])\<rparr>
      in (m, w1\<lparr>trackerToMember := ((trackerToMember w1)(Some h1 \<mapsto> m))(tracker \<mapsto> m)\<rparr>))"

definition findByTracker :: "registry \<Rightarrow> tracker option \<Rightarrow> member option" where
  "findByTracker w tracker = trackerToMember w tracker"

text \<open>
  The \<open>refreshSub\<close> option the server passes: a tracker the registry knows is returned
  as it is; otherwise a tracker is generated and a member inserted for it. Either way the
  member is attached to the request.
\<close>

definition server_refreshSub ::
  "(nat \<Rightarrow> tracker) \<Rightarrow> registry \<Rightarrow> tracker option \<Rightarrow> (error + tracker option) \<times> registry" where
  "server_refreshSub rnd w prevSub =
     (case findByTracker w prevSub of
        Some m \<Rightarrow> (Inr prevSub, w\<lparr>req_member := Some m\<rparr>)
      | None \<Rightarrow>
          (let (s, w1) = generateTracker rnd w;
               (m, w2) = Member_insert rnd (Some s) None w1
           in (Inr (Some s), w2\<lparr>req_member := Some m\<rparr>)))"

text \<open>The options of the server: one year, five minutes, one minute.\<close>

definition server_options :: "string \<Rightarrow> string \<Rightarrow> (nat \<Rightarrow> tracker) \<Rightarrow> registry options" where
  "server_options root_url session_secret rnd =
     \<lparr>opt_iss = root_url, secret = session_secret,
      refreshMaxAge = 365 * 24 * 60 * 60 * 1000,
      sessionMaxAge = 5 * 60 * 1000,
      sessionEarlyRefresh = 1 * 60 * 1000,
      refreshSub = server_refreshSub rnd\<rparr>"

text \<open>
  The server's error handler: an error whose status is 401, 403 or 404 is answered with
  that status and the message; anything else is passed on to the next handler.
\<close>

datatype handled = Respond nat string | PassOn "error option"

definition errorHandler :: "error option \<Rightarrow> handled" where
  "errorHandler err =
     (case err of
        None \<Rightarrow> PassOn None
      | Some x \<Rightarrow>
          (case status x of
             None \<Rightarrow> PassOn err
           | Some code \<Rightarrow>
               if code \<in> set [401, 403, 404] then Respond code (message x) else PassOn err))"

text \<open>The state of a request that no middleware has handled yet.\<close>

definition fresh_state :: "'w \<Rightarrow> ('t, 'w) state" where
  "fresh_state w = \<lparr>session = empty_session, res_cookies = [], next_calls = [],
     thrown = None, uuid_calls = 0, world = w\<rparr>"

section \<open>Implementations of the token library\<close>

text \<open>
  The error objects of the \<open>jsonwebtoken\<close> package (\<open>JsonWebTokenError\<close>,
  \<open>TokenExpiredError\<close>) have a name and a message and no \<open>status\<close> property.
\<close>

definition jwtError :: "string \<Rightarrow> error" where
  "jwtError msg = \<lparr>name = ''JsonWebTokenError'', status = None, message = msg\<rparr>"

text \<open>
  A library given by a table of the tokens in circulation, each with the secret it was
  signed with and its claims, used to run the middleware on concrete requests. Signing
  names the token after the scope and the subject of the payload.
\<close>

definition token_name :: "payload \<Rightarrow> string" where
  "token_name p =
     (case scope p of ScopeString x \<Rightarrow> x | ScopeArray xs \<Rightarrow> concat xs) @ ''-for-'' @
     (case sub p of None \<Rightarrow> ''undefined'' | Some t \<Rightarrow> t)"

definition table_library :: "(string \<times> string \<times> claims) list \<Rightarrow> string jwt_library" where
  "table_library issued =
     \<lparr>jwt_sign = (\<lambda>p k ttl. Inr (token_name p)),
      jwt_verify = (\<lambda>t k issuer.
         case t of
           None \<Rightarrow> Inl (jwtError ''jwt must be provided'')
         | Some tok \<Rightarrow>
             (case map_of issued tok of
                None \<Rightarrow> Inl (jwtError ''jwt malformed'')
              | Some (k1, c) \<Rightarrow>
                  if k1 \<noteq> k then Inl (jwtError ''invalid signature'')
                  else if iss c \<noteq> issuer then Inl (jwtError ''jwt issuer invalid'')
                  else Inr c)),
      jwt_decode = (\<lambda>tok. map_option snd (map_of issued tok))\<rparr>"

text \<open>
  Modelled from the spec: the token codec of section 4.1 (\<open>sign\<close> and \<open>verify\<close>),
  which the source takes from the \<open>jsonwebtoken\<close> package and which is not among the
  source files. A credential is the signed structure of its claims; \<open>sign\<close> adds
  \<open>iat\<close> and \<open>exp\<close>; validity is a function of signature, issuer and expiry, the
  expiry evaluated in whole seconds; the verification errors are \<open>BadSignature\<close>,
  \<open>Expired\<close>, \<open>IssuerMismatch\<close> and \<open>Malformed\<close>. The signature is symbolic: a
  token records the secret it was signed with. The argument is the clock, in
  milliseconds.
\<close>

datatype token = Signed claims string | Garbled string

definition verificationError :: "string \<Rightarrow> error" where
  "verificationError kind = \<lparr>name = kind, status = None, message = kind\<rparr>"

definition token_codec :: "int \<Rightarrow> token jwt_library" where
  "token_codec clock =
     \<lparr>jwt_sign = (\<lambda>p k ttl.
         Inr (Signed \<lparr>jti = jti p, iss = iss p, sub = sub p, scope = scope p,
                      iat = clock div 1000, exp = clock div 1000 + ttl\<rparr> k)),
      jwt_verify = (\<lambda>t k issuer.
         case t of
           None \<Rightarrow> Inl (verificationError ''Malformed'')
         | Some (Garbled x) \<Rightarrow> Inl (verificationError ''Malformed'')
         | Some (Signed c k1) \<Rightarrow>
             if k1 \<noteq> k then Inl (verificationError ''BadSignature'')
             else if clock div 1000 \<ge> exp c then Inl (verificationError ''Expired'')
             else if iss c \<noteq> issuer then Inl (verificationError ''IssuerMismatch'')
             else Inr c),
      jwt_decode = (\<lambda>t. case t of Signed c k1 \<Rightarrow> Some c | Garbled x \<Rightarrow> None)\<rparr>"

section \<open>Sample configurations\<close>

text \<open>
  Two clocks that share an identifier source, options whose revocation check returns
  every subject it is given unchanged (the absent one included), a session token and a
  refresh token of one tracker as they are in circulation, and some requests.
\<close>

definition sample_env :: env where
  "sample_env = \<lparr>now = 999500, uuidV4 = (\<lambda>n. ''uuid-'' @ replicate n CHR ''i'')\<rparr>"

definition early_env :: env where
  "early_env = \<lparr>now = 800000, uuidV4 = (\<lambda>n. ''uuid-'' @ replicate n CHR ''i'')\<rparr>"

definition confirming_options :: "unit options" where
  "confirming_options =
     \<lparr>opt_iss = ''http://localhost:3000'', secret = ''keyboard-cat'',
      refreshMaxAge = 365 * 24 * 60 * 60 * 1000,
      sessionMaxAge = 5 * 60 * 1000,
      sessionEarlyRefresh = 1 * 60 * 1000,
      refreshSub = (\<lambda>w s. (Inr s, w))\<rparr>"

definition session_claims :: claims where
  "session_claims =
     \<lparr>jti = ''jti-1'', iss = ''http://localhost:3000'', sub = Some ''t2abc'',
      scope = ScopeArray [''session'', ''sensitive''], iat = 700, exp = 1000\<rparr>"

definition refresh_claims :: claims where
  "refresh_claims =
     \<lparr>jti = ''jti-0'', iss = ''http://localhost:3000'', sub = Some ''t2abc'',
      scope = ScopeString ''refresh'', iat = 0, exp = 31536000\<rparr>"

definition circulating :: "(string \<times> string \<times> claims) list" where
  "circulating =
     [(''S1'', ''keyboard-cat'', session_claims), (''R1'', ''keyboard-cat'', refresh_claims)]"

definition bare_request :: "string request" where
  "bare_request = \<lparr>authorization = None, cookies = Map.empty, secure = False\<rparr>"

definition header_request :: "string request" where
  "header_request =
     \<lparr>authorization = Some ''Bearer S1'', cookies = Map.empty, secure = False\<rparr>"

definition cookie_request :: "string request" where
  "cookie_request =
     \<lparr>authorization = None,
      cookies = [cookieNames_refresh \<mapsto> ''R1'', cookieNames_session \<mapsto> ''S1''],
      secure = False\<rparr>"

definition forged_header_request :: "string request" where
  "forged_header_request =
     \<lparr>authorization = Some ''Bearer forged'', cookies = Map.empty, secure = False\<rparr>"

definition forged_cookie_request :: "string request" where
  "forged_cookie_request =
     \<lparr>authorization = None, cookies = [cookieNames_refresh \<mapsto> ''forged''],
      secure = False\<rparr>"

definition stale_refresh_request :: "string request" where
  "stale_refresh_request =
     \<lparr>authorization = Some ''Bearer S1'',
      cookies = [cookieNames_refresh \<mapsto> ''forged''], secure = False\<rparr>"

definition empty_registry :: registry where
  "empty_registry = \<lparr>trackerToMember = Map.empty, random_calls = 0, req_member = None\<rparr>"

definition sample_random :: "nat \<Rightarrow> tracker" where
  "sample_random n = (if n = 0 then ''k3x9q'' else ''p0zz1'')"

definition malformed_header_request :: "string request" where
  "malformed_header_request =
     \<lparr>authorization = Some ''Bearer S1 extra'', cookies = Map.empty, secure = False\<rparr>"

definition established_state :: "(string, unit) state" where
  "established_state =
     (fresh_state ())\<lparr>session :=
        \<lparr>session_sub = Some ''t2abc'', sensitive = True, moderate = False, mutation = True,
         decoded = Some session_claims\<rparr>\<rparr>"

definition cookie_only_state :: "(string, unit) state" where
  "cookie_only_state =
     (fresh_state ())\<lparr>session := empty_session\<lparr>session_sub := Some ''t2abc''\<rparr>,
        next_calls := [None]\<rparr>"

definition refresh_header_request :: "string request" where
  "refresh_header_request =
     \<lparr>authorization = Some ''Bearer R1'', cookies = Map.empty, secure = False\<rparr>"

definition basic_header_request :: "string request" where
  "basic_header_request =
     \<lparr>authorization = Some ''Basic S1'', cookies = Map.empty, secure = False\<rparr>"

definition forged_session_cookie_request :: "string request" where
  "forged_session_cookie_request =
     \<lparr>authorization = None,
      cookies = [cookieNames_refresh \<mapsto> ''R1'', cookieNames_session \<mapsto> ''forged''],
      secure = False\<rparr>"

definition other_subject_state :: "(string, unit) state" where
  "other_subject_state =
     (fresh_state ())\<lparr>session := empty_session\<lparr>session_sub := Some ''zzzzz''\<rparr>,
        next_calls := [None]\<rparr>"

section \<open>Properties of the helpers\<close>

lemma almostExpired_number: "almostExpired e d (JsNumber n) = False"
  by (simp add: almostExpired_def get_sessionEarlyRefresh_def)

lemma split_nonempty: "split sep s \<noteq> []"
  by (induction s) (auto split: list.splits)

lemma split_no_sep: "sep \<notin> set s \<Longrightarrow> split sep s = [s]"
  by (induction s) auto

lemma split_prefix: "sep \<notin> set a \<Longrightarrow> split sep (a @ sep # b) = a # split sep b"
  by (induction a) (auto split: list.splits)

lemma is_bearer_Bearer: "is_bearer ''Bearer''"
  by (simp add: is_bearer_def)

lemma header_bearer:
  assumes "authorization req = Some (''Bearer '' @ tok)" and "CHR '' '' \<notin> set tok"
  shows "authenticateHeaderIfPresent lib req options =
     (case jwt_verify lib (Some tok) (secret options) (opt_iss options) of
        Inl err \<Rightarrow> Inl err | Inr d \<Rightarrow> Inr (Some d))"
proof -
  have "split CHR '' '' (''Bearer'' @ CHR '' '' # tok) = ''Bearer'' # split CHR '' '' tok"
    by (rule split_prefix) simp
  then have "split CHR '' '' (''Bearer '' @ tok) = [''Bearer'', tok]"
    using assms(2) by (simp add: split_no_sep)
  then show ?thesis
    using assms(1) by (simp add: authenticateHeaderIfPresent_def is_bearer_Bearer Let_def)
qed

lemma newSessionCookie_cases:
  "newSessionCookie lib e req s options st = (r, st') \<Longrightarrow>
     session st' = session st \<and> world st' = world st \<and> next_calls st' = next_calls st \<and>
     thrown st' = thrown st \<and>
     (\<exists>ws. res_cookies st' = res_cookies st @ ws \<and>
        (map cookie_name ws = [] \<or> map cookie_name ws = [cookieNames_session]))"
  by (auto simp: newSessionCookie_def Let_def split: sum.splits)

lemma newRefreshCookie_cases:
  "newRefreshCookie lib e req s options st = (r, st') \<Longrightarrow>
     session st' = session st \<and> world st' = world st \<and> next_calls st' = next_calls st \<and>
     thrown st' = thrown st \<and>
     (\<exists>ws. res_cookies st' = res_cookies st @ ws \<and>
        (map cookie_name ws = [] \<or> map cookie_name ws = [cookieNames_refresh]))"
  by (auto simp: newRefreshCookie_def Let_def split: sum.splits)

lemma newRefreshAndSessionCookie_cases:
  assumes "newRefreshAndSessionCookie lib e req s options st = (r, st')"
  shows "session st' = session st \<and> world st' = world st \<and> next_calls st' = next_calls st \<and>
     thrown st' = thrown st \<and>
     (\<exists>ws. res_cookies st' = res_cookies st @ ws \<and>
        map cookie_name ws \<in> set [[], [cookieNames_refresh], [cookieNames_refresh, cookieNames_session]])"
proof (cases "newRefreshCookie lib e req s options st")
  case (Pair r1 st1)
  note r = newRefreshCookie_cases [OF Pair]
  show ?thesis
  proof (cases r1)
    case (Inl err)
    with assms Pair r show ?thesis
      by (auto simp: newRefreshAndSessionCookie_def)
  next
    case (Inr jwt)
    with assms Pair have s: "newSessionCookie lib e req s options st1 = (r, st')"
      by (simp add: newRefreshAndSessionCookie_def)
    have "\<exists>ws. res_cookies st1 = res_cookies st @ ws \<and> map cookie_name ws = [cookieNames_refresh]"
      using Pair Inr by (auto simp: newRefreshCookie_def Let_def split: sum.splits)
    with newSessionCookie_cases [OF s] r show ?thesis
      by auto
  qed
qed

lemma nextWithNewSession_writes:
  "world (nextWithNewSession lib e options req v st) = world st \<and>
   (\<exists>ws. res_cookies (nextWithNewSession lib e options req v st) = res_cookies st @ ws \<and>
      map cookie_name ws \<in> set [[], [cookieNames_refresh], [cookieNames_refresh, cookieNames_session]])"
proof (cases "newRefreshAndSessionCookie lib e req v options st")
  case (Pair r st1)
  from newRefreshAndSessionCookie_cases [OF Pair] show ?thesis
    by (auto simp: nextWithNewSession_def Pair call_next_def Let_def split: sum.splits)
qed

lemma mint_session_writes:
  "world (case newSessionCookie lib e req s options st of
            (Inl err2, st2) \<Rightarrow> call_next (Some err2) st2
          | (Inr jwt, st2) \<Rightarrow> call_next None st2) = world st \<and>
   (\<exists>ws. res_cookies (case newSessionCookie lib e req s options st of
            (Inl err2, st2) \<Rightarrow> call_next (Some err2) st2
          | (Inr jwt, st2) \<Rightarrow> call_next None st2) = res_cookies st @ ws \<and>
      (map cookie_name ws = [] \<or> map cookie_name ws = [cookieNames_session]))"
proof (cases "newSessionCookie lib e req s options st")
  case (Pair r st1)
  from newSessionCookie_cases [OF Pair] show ?thesis
    by (auto simp: Pair call_next_def split: sum.splits)
qed

lemma refreshSessionFromCookie_writes:
  "world (refreshSessionFromCookie lib e options req st) = world st \<and>
   (\<exists>ws. res_cookies (refreshSessionFromCookie lib e options req st) = res_cookies st @ ws \<and>
      (map cookie_name ws = [] \<or> map cookie_name ws = [cookieNames_session]))"
  unfolding refreshSessionFromCookie_def Let_def
  using mint_session_writes [of lib e req _ options "call_next _ (st\<lparr>session := empty_session\<rparr>)"]
    mint_session_writes [of lib e req _ options st]
  by (auto simp: call_next_def)

lemma loadSessionCookie_writes:
  "world (loadSessionCookie lib e options req st) = world st \<and>
   (\<exists>ws. res_cookies (loadSessionCookie lib e options req st) = res_cookies st @ ws \<and>
      (map cookie_name ws = [] \<or> map cookie_name ws = [cookieNames_session]))"
  unfolding loadSessionCookie_def
  using mint_session_writes [of lib e req _ options st]
  by (auto simp: call_next_def split: sum.splits option.splits)

lemma nextWithExistingSession_writes:
  assumes "nextWithExistingSession lib e options req dec st = Inr st'"
  shows "world st' = world st \<and>
   (\<exists>ws. res_cookies st' = res_cookies st @ ws \<and>
      (map cookie_name ws = [] \<or> map cookie_name ws = [cookieNames_session]))"
proof -
  obtain p where p: "promoteDecodedToSession dec = Inr p"
    using assms by (auto simp: nextWithExistingSession_def split: sum.splits)
  define st1 where "st1 = st\<lparr>session := (extend_session (session st) p)\<lparr>decoded := dec\<rparr>\<rparr>"
  have f: "world st1 = world st" "res_cookies st1 = res_cookies st"
    by (simp_all add: st1_def)
  have "st' = call_next None st1 \<or> st' = refreshSessionFromCookie lib e options req st1
      \<or> st' = loadSessionCookie lib e options req st1"
    using assms p unfolding nextWithExistingSession_def st1_def Let_def
    by (auto split: if_splits option.splits)
  then show ?thesis
    using refreshSessionFromCookie_writes [of lib e options req st1]
      loadSessionCookie_writes [of lib e options req st1] f
    by (auto simp: call_next_def)
qed

lemma afterRefreshSub_writes:
  "world (afterRefreshSub lib e options req h dec st) =
     snd (refreshSub options (world st) (get_sub dec)) \<and>
   (\<exists>ws. res_cookies (afterRefreshSub lib e options req h dec st) = res_cookies st @ ws \<and>
      map cookie_name ws \<in> set [[], [cookieNames_session], [cookieNames_refresh],
         [cookieNames_refresh, cookieNames_session]])"
proof (cases "refreshSub options (world st) (get_sub dec)")
  case (Pair r w)
  show ?thesis
  proof (cases r)
    case (Inl reason)
    with Pair show ?thesis
      by (simp add: afterRefreshSub_def call_next_def)
  next
    case (Inr validSub)
    define st1 where "st1 = st\<lparr>world := w\<rparr>"
    define st2 where "st2 = (if h then st1\<lparr>session := (session st1)\<lparr>mutation := True\<rparr>\<rparr> else st1)"
    have f: "world st2 = w" "res_cookies st2 = res_cookies st"
      "world st1 = w" "res_cookies st1 = res_cookies st"
      by (simp_all add: st1_def st2_def)
    show ?thesis
    proof (cases "validSub = get_sub dec")
      case True
      then have a: "afterRefreshSub lib e options req h dec st =
          (case nextWithExistingSession lib e options req dec st2 of
             Inl reason \<Rightarrow> call_next (Some reason) st2 | Inr st3 \<Rightarrow> st3)"
        using Pair Inr by (simp add: afterRefreshSub_def st1_def st2_def Let_def split: sum.splits)
      show ?thesis
      proof (cases "nextWithExistingSession lib e options req dec st2")
        case (Inl reason)
        with a f Pair show ?thesis by (simp add: call_next_def)
      next
        case (Inr st3)
        with a nextWithExistingSession_writes [OF Inr] f Pair show ?thesis by auto
      qed
    next
      case False
      then have "afterRefreshSub lib e options req h dec st =
          nextWithNewSession lib e options req validSub st1"
        using Pair Inr by (simp add: afterRefreshSub_def st1_def Let_def)
      with nextWithNewSession_writes [of lib e options req validSub st1] f Pair
      show ?thesis by auto
    qed
  qed
qed

lemma doRoute_writes:
  "(world (doRouteAssociateAndRefresh lib e options req st) = world st \<or>
    (\<exists>dec. world (doRouteAssociateAndRefresh lib e options req st) =
       snd (refreshSub options (world st) (get_sub dec)))) \<and>
   (\<exists>ws. res_cookies (doRouteAssociateAndRefresh lib e options req st) = res_cookies st @ ws \<and>
      map cookie_name ws \<in> set [[], [cookieNames_session], [cookieNames_refresh],
         [cookieNames_refresh, cookieNames_session]])"
proof -
  have "doRouteAssociateAndRefresh lib e options req st = call_next None st
      \<or> (\<exists>err. doRouteAssociateAndRefresh lib e options req st = call_next (Some err) st)
      \<or> (\<exists>h dec. doRouteAssociateAndRefresh lib e options req st =
            afterRefreshSub lib e options req h dec st)"
    unfolding doRouteAssociateAndRefresh_def
    by (auto split: sum.splits option.splits)
  then show ?thesis
    using afterRefreshSub_writes [of lib e options req _ _ st]
    by (auto simp: call_next_def)
qed

lemma authenticateCookie_present:
  assumes "cookies req cname = Some jwt" and "jwt \<noteq> []"
  shows "authenticateCookie lib req cname options =
     (case jwt_verify lib (Some jwt) (secret options) (opt_iss options) of
        Inl err \<Rightarrow> Inl err | Inr d \<Rightarrow> Inr (Some d))"
  using assms by (simp add: authenticateCookie_def)

lemma authenticateCookie_missing:
  "cookie_missing req cname \<Longrightarrow> authenticateCookie lib req cname options = Inr None"
  by (auto simp: authenticateCookie_def cookie_missing_def split: option.splits)

lemma nextWithExistingSession_Some:
  "nextWithExistingSession lib e options req (Some d) st =
     Inr (let st1 = st\<lparr>session := (extend_session (session st)
                \<lparr>promoted_sub = sub d,
                 promoted_sensitive = (''sensitive'' \<in> set (scopeArray (scope d))),
                 promoted_moderate = (''moderate'' \<in> set (scopeArray (scope d)))\<rparr>)
                  \<lparr>decoded := Some d\<rparr>\<rparr>
          in if cookie_missing req cookieNames_refresh \<or> scope d \<noteq> ScopeString ''refresh''
             then call_next None st1
             else loadSessionCookie lib e options req st1)"
  by (simp add: nextWithExistingSession_def promoteDecodedToSession_def almostExpired_number
      Let_def)



lemma server_refreshSub_unknown:
  assumes "findByTracker w prev = None"
  shows "server_refreshSub rnd w prev =
     (Inr (Some (rnd (random_calls w))),
      \<lparr>trackerToMember = (trackerToMember w)
         (Some (rnd (Suc (random_calls w))) \<mapsto>
            \<lparr>handle = rnd (Suc (random_calls w)),
             trackers = (if rnd (random_calls w) = [] then [] else [rnd (random_calls w)])\<rparr>,
          Some (rnd (random_calls w)) \<mapsto>
            \<lparr>handle = rnd (Suc (random_calls w)),
             trackers = (if rnd (random_calls w) = [] then [] else [rnd (random_calls w)])\<rparr>),
       random_calls = Suc (Suc (random_calls w)),
       req_member = Some \<lparr>handle = rnd (Suc (random_calls w)),
             trackers = (if rnd (random_calls w) = [] then [] else [rnd (random_calls w)])\<rparr>\<rparr>)"
  using assms
  by (simp add: server_refreshSub_def generateTracker_def Member_insert_def Let_def)


lemma nextWithNewSession_effects:
  "res_cookies (nextWithNewSession lib e options req v st) =
     res_cookies (snd (newRefreshAndSessionCookie lib e req v options st)) \<and>
   world (nextWithNewSession lib e options req v st) = world st"
proof (cases "newRefreshAndSessionCookie lib e req v options st")
  case (Pair r st1)
  from newRefreshAndSessionCookie_cases [OF Pair] show ?thesis
    by (auto simp: nextWithNewSession_def Pair call_next_def Let_def split: sum.splits)
qed



lemma names_differ: "cookieNames_refresh \<noteq> cookieNames_session"
  by (simp add: cookieNames_refresh_def cookieNames_session_def)

lemma both_names_ordered:
  assumes "ns \<in> set [[], [cookieNames_session], [cookieNames_refresh],
         [cookieNames_refresh, cookieNames_session]]"
    and "cookieNames_refresh \<in> set ns" and "cookieNames_session \<in> set ns"
  shows "ns = [cookieNames_refresh, cookieNames_session]"
proof -
  from assms(1) consider "ns = []" | "ns = [cookieNames_session]" | "ns = [cookieNames_refresh]"
    | "ns = [cookieNames_refresh, cookieNames_session]"
    by auto
  then show ?thesis
  proof cases
    case 1
    with assms(2) show ?thesis by simp
  next
    case 2
    with assms(2) names_differ show ?thesis by simp
  next
    case 3
    with assms(3) names_differ show ?thesis by simp
  next
    case 4
    then show ?thesis .
  qed
qed

lemma first_contact_sample_cookies:
  "map cookie_name (res_cookies
      (doRouteAssociateAndRefresh (table_library []) sample_env
         (server_options ''http://localhost:3000'' ''keyboard-cat'' sample_random) bare_request
         (fresh_state empty_registry))) = [cookieNames_refresh, cookieNames_session]"
  by (simp add: doRouteAssociateAndRefresh_def afterRefreshSub_def
        authenticateHeaderIfPresent_def authenticateCookie_def nextWithNewSession_effects
        newRefreshAndSessionCookie_def newRefreshCookie_def newSessionCookie_def
        server_options_def server_refreshSub_def findByTracker_def generateTracker_def
        Member_insert_def get_sub_def truthy_def fresh_state_def empty_session_def
        bare_request_def empty_registry_def table_library_def Let_def)

lemma header_errors:
  assumes "authenticateHeaderIfPresent lib req options = Inl err"
  shows "err = httpErrors 401 ''credentials bad format'' \<or>
     err = httpErrors 401 ''credentials bad scheme'' \<or>
     (\<exists>t. jwt_verify lib t (secret options) (opt_iss options) = Inl err)"
  using assms
  by (auto simp: authenticateHeaderIfPresent_def Let_def
      split: option.splits if_splits sum.splits)

lemma cookie_errors:
  assumes "authenticateCookie lib req cname options = Inl err"
  shows "\<exists>t. jwt_verify lib t (secret options) (opt_iss options) = Inl err"
  using assms
  by (auto simp: authenticateCookie_def split: option.splits if_splits sum.splits)

lemma newSessionCookie_errors:
  assumes "newSessionCookie lib e req s options st = (Inl err, st')"
  shows "\<exists>p ttl. jwt_sign lib p (secret options) ttl = Inl err"
  using assms
  by (auto simp: newSessionCookie_def Let_def split: sum.splits)

lemma newRefreshCookie_errors:
  assumes "newRefreshCookie lib e req s options st = (Inl err, st')"
  shows "\<exists>p ttl. jwt_sign lib p (secret options) ttl = Inl err"
  using assms
  by (auto simp: newRefreshCookie_def Let_def split: sum.splits)

lemma newRefreshAndSessionCookie_errors:
  assumes "newRefreshAndSessionCookie lib e req s options st = (Inl err, st')"
  shows "\<exists>p ttl. jwt_sign lib p (secret options) ttl = Inl err"
proof (cases "newRefreshCookie lib e req s options st")
  case (Pair r st1)
  show ?thesis
  proof (cases r)
    case (Inl x)
    with assms Pair have "x = err"
      by (simp add: newRefreshAndSessionCookie_def)
    with Pair Inl show ?thesis
      using newRefreshCookie_errors by blast
  next
    case (Inr jwt)
    with assms Pair have "newSessionCookie lib e req s options st1 = (Inl err, st')"
      by (simp add: newRefreshAndSessionCookie_def)
    then show ?thesis
      by (rule newSessionCookie_errors)
  qed
qed

lemma mint_session_errors:
  assumes "Some err \<in> set (next_calls (case newSessionCookie lib e req s options st of
            (Inl err2, st2) \<Rightarrow> call_next (Some err2) st2
          | (Inr jwt, st2) \<Rightarrow> call_next None st2))"
  shows "Some err \<in> set (next_calls st) \<or>
     (\<exists>p ttl. jwt_sign lib p (secret options) ttl = Inl err)"
proof (cases "newSessionCookie lib e req s options st")
  case (Pair r st1)
  note f = newSessionCookie_cases [OF Pair]
  show ?thesis
  proof (cases r)
    case (Inl x)
    with assms Pair f have "Some err \<in> set (next_calls st) \<or> x = err"
      by (auto simp: call_next_def)
    with Pair Inl show ?thesis
      using newSessionCookie_errors by blast
  next
    case (Inr jwt)
    with assms Pair f show ?thesis
      by (auto simp: call_next_def)
  qed
qed

lemma loadSessionCookie_errors:
  assumes "Some err \<in> set (next_calls (loadSessionCookie lib e options req st))"
  shows "Some err \<in> set (next_calls st) \<or>
     (\<exists>p ttl. jwt_sign lib p (secret options) ttl = Inl err)"
proof -
  have "loadSessionCookie lib e options req st = call_next None st \<or>
      loadSessionCookie lib e options req st =
        (case newSessionCookie lib e req (session_sub (session st)) options st of
            (Inl err2, st2) \<Rightarrow> call_next (Some err2) st2
          | (Inr jwt, st2) \<Rightarrow> call_next None st2)"
    by (simp add: loadSessionCookie_def split: sum.splits option.splits)
  with assms mint_session_errors [of err lib e req "session_sub (session st)" options st]
  show ?thesis
    by (auto simp: call_next_def)
qed

lemma nextWithNewSession_errors:
  assumes "Some err \<in> set (next_calls (nextWithNewSession lib e options req v st))"
  shows "Some err \<in> set (next_calls st) \<or>
     (\<exists>p ttl. jwt_sign lib p (secret options) ttl = Inl err)"
proof (cases "newRefreshAndSessionCookie lib e req v options st")
  case (Pair r st1)
  note f = newRefreshAndSessionCookie_cases [OF Pair]
  show ?thesis
  proof (cases r)
    case (Inl x)
    with assms Pair f have "Some err \<in> set (next_calls st) \<or> x = err"
      by (auto simp: nextWithNewSession_def call_next_def)
    with Pair Inl show ?thesis
      using newRefreshAndSessionCookie_errors by blast
  next
    case (Inr jwt)
    with assms Pair f show ?thesis
      by (auto simp: nextWithNewSession_def call_next_def Let_def split: sum.splits)
  qed
qed

lemma refreshSessionFromCookie_errors:
  assumes "Some err \<in> set (next_calls (refreshSessionFromCookie lib e options req st))"
  shows "Some err \<in> set (next_calls st) \<or>
     err = httpErrors 401 ''credentials mismatch'' \<or>
     (\<exists>t. jwt_verify lib t (secret options) (opt_iss options) = Inl err) \<or>
     (\<exists>p ttl. jwt_sign lib p (secret options) ttl = Inl err)"
proof -
  define r where "r = authenticateCookie lib req cookieNames_refresh options"
  define x where "x = (case r of Inl x \<Rightarrow> Some x | Inr _ \<Rightarrow> None)"
  define st1 where "st1 =
     (if x \<noteq> None \<or> session_sub (session st) \<noteq>
           get_sub (case r of Inl _ \<Rightarrow> None | Inr y \<Rightarrow> y)
      then call_next (Some (case x of Some y \<Rightarrow> y
                            | None \<Rightarrow> httpErrors 401 ''credentials mismatch''))
             (st\<lparr>session := empty_session\<rparr>)
      else st)"
  have d: "refreshSessionFromCookie lib e options req st =
      (case newSessionCookie lib e req (session_sub (session st1)) options st1 of
           (Inl err2, st2) \<Rightarrow> call_next (Some err2) st2
         | (Inr jwt, st2) \<Rightarrow> call_next None st2)"
    by (simp add: refreshSessionFromCookie_def r_def x_def st1_def Let_def)
  have v: "x = Some y \<Longrightarrow> \<exists>t. jwt_verify lib t (secret options) (opt_iss options) = Inl y"
    for y
    using cookie_errors [of lib req cookieNames_refresh options y]
    by (auto simp: x_def r_def split: sum.splits)
  have "Some err \<in> set (next_calls st1) \<Longrightarrow> Some err \<in> set (next_calls st) \<or>
     err = httpErrors 401 ''credentials mismatch'' \<or>
     (\<exists>t. jwt_verify lib t (secret options) (opt_iss options) = Inl err)"
    using v by (cases x) (auto simp: st1_def call_next_def split: if_splits)
  with assms mint_session_errors [of err lib e req "session_sub (session st1)" options st1]
  show ?thesis
    unfolding d by blast
qed

lemma nextWithExistingSession_raises:
  assumes "nextWithExistingSession lib e options req dec st = Inl err"
  shows "err = typeError ''sub'' \<and> dec = None"
  using assms
  by (cases dec)
    (auto simp: nextWithExistingSession_def promoteDecodedToSession_def Let_def
       split: if_splits)

lemma nextWithExistingSession_errors:
  assumes "nextWithExistingSession lib e options req dec st = Inr st'"
    and "Some err \<in> set (next_calls st')"
  shows "Some err \<in> set (next_calls st) \<or>
     (\<exists>p ttl. jwt_sign lib p (secret options) ttl = Inl err)"
proof (cases dec)
  case None
  with assms(1) show ?thesis
    by (simp add: nextWithExistingSession_def promoteDecodedToSession_def)
next
  case (Some d)
  define st1 where "st1 = st\<lparr>session := (extend_session (session st)
                \<lparr>promoted_sub = sub d,
                 promoted_sensitive = (''sensitive'' \<in> set (scopeArray (scope d))),
                 promoted_moderate = (''moderate'' \<in> set (scopeArray (scope d)))\<rparr>)
                  \<lparr>decoded := Some d\<rparr>\<rparr>"
  have n: "next_calls st1 = next_calls st"
    by (simp add: st1_def)
  have "st' = call_next None st1 \<or> st' = loadSessionCookie lib e options req st1"
    using assms(1) unfolding Some nextWithExistingSession_Some st1_def Let_def
    by (auto split: if_splits)
  with assms(2) loadSessionCookie_errors [of err lib e options req st1] n
  show ?thesis
    by (auto simp: call_next_def)
qed

lemma afterRefreshSub_errors:
  assumes "Some err \<in> set (next_calls (afterRefreshSub lib e options req h dec st))"
  shows "Some err \<in> set (next_calls st) \<or>
     (\<exists>p ttl. jwt_sign lib p (secret options) ttl = Inl err) \<or>
     (\<exists>w s w'. refreshSub options w s = (Inl err, w')) \<or>
     err = typeError ''sub''"
proof (cases "refreshSub options (world st) (get_sub dec)")
  case (Pair r w)
  show ?thesis
  proof (cases r)
    case (Inl reason)
    with Pair assms have "Some err \<in> set (next_calls st) \<or> reason = err"
      by (auto simp: afterRefreshSub_def call_next_def)
    with Pair Inl show ?thesis by blast
  next
    case (Inr validSub)
    define st1 where "st1 = st\<lparr>world := w\<rparr>"
    define st2 where "st2 = (if h then st1\<lparr>session := (session st1)\<lparr>mutation := True\<rparr>\<rparr> else st1)"
    have n: "next_calls st1 = next_calls st" "next_calls st2 = next_calls st"
      by (simp_all add: st1_def st2_def)
    show ?thesis
    proof (cases "validSub = get_sub dec")
      case True
      then have a: "afterRefreshSub lib e options req h dec st =
          (case nextWithExistingSession lib e options req dec st2 of
             Inl reason \<Rightarrow> call_next (Some reason) st2 | Inr st3 \<Rightarrow> st3)"
        using Pair Inr
        by (simp add: afterRefreshSub_def st1_def st2_def Let_def split: sum.splits)
      show ?thesis
      proof (cases "nextWithExistingSession lib e options req dec st2")
        case (Inl reason)
        with a assms n nextWithExistingSession_raises [OF Inl] show ?thesis
          by (auto simp: call_next_def)
      next
        case (Inr st3)
        with a assms n nextWithExistingSession_errors [OF Inr, of err] show ?thesis
          by auto
      qed
    next
      case False
      then have "afterRefreshSub lib e options req h dec st =
          nextWithNewSession lib e options req validSub st1"
        using Pair Inr by (simp add: afterRefreshSub_def st1_def Let_def)
      with assms n nextWithNewSession_errors [of err lib e options req validSub st1]
      show ?thesis by auto
    qed
  qed
qed

lemma doRoute_errors:
  assumes "Some err \<in> set (next_calls (doRouteAssociateAndRefresh lib e options req st))"
  shows "Some err \<in> set (next_calls st) \<or>
     err = httpErrors 401 ''credentials bad format'' \<or>
     err = httpErrors 401 ''credentials bad scheme'' \<or>
     (\<exists>t. jwt_verify lib t (secret options) (opt_iss options) = Inl err) \<or>
     (\<exists>p ttl. jwt_sign lib p (secret options) ttl = Inl err) \<or>
     (\<exists>w s w'. refreshSub options w s = (Inl err, w')) \<or>
     err = typeError ''sub''"
proof -
  consider "doRouteAssociateAndRefresh lib e options req st = call_next None st"
    | "authenticateHeaderIfPresent lib req options = Inl err"
    | "authenticateCookie lib req cookieNames_refresh options = Inl err"
    | "Some err \<in> set (next_calls st)"
    | h dec where "doRouteAssociateAndRefresh lib e options req st =
            afterRefreshSub lib e options req h dec st"
    using assms unfolding doRouteAssociateAndRefresh_def
    by (auto simp: call_next_def split: sum.splits option.splits if_splits)
  then show ?thesis
  proof cases
    case 1
    with assms show ?thesis by (simp add: call_next_def)
  next
    case 2
    with header_errors [OF 2] show ?thesis by blast
  next
    case 3
    with cookie_errors [OF 3] show ?thesis by blast
  next
    case 4
    then show ?thesis by simp
  next
    case 5
    with assms afterRefreshSub_errors [of err lib e options req h dec st] show ?thesis
      by auto
  qed
qed

lemma guard_errors:
  assumes "next_calls (doRouteAuthenticateForMutation lib options req st) =
      next_calls st @ [Some err]"
  shows "err = httpErrors 401 ''credentials bad format'' \<or>
     err = httpErrors 401 ''credentials bad scheme'' \<or>
     err = httpErrors 401 ''credentials required'' \<or>
     err = httpErrors 401 ''credentials mismatch'' \<or>
     (\<exists>t. jwt_verify lib t (secret options) (opt_iss options) = Inl err)"
proof (cases "authenticateHeaderIfPresent lib req options")
  case (Inl x)
  with assms have "x = err"
    by (auto simp: doRouteAuthenticateForMutation_def call_next_def split: if_splits)
  with header_errors [OF Inl] show ?thesis by blast
next
  case (Inr dec)
  with assms show ?thesis
    by (auto simp: doRouteAuthenticateForMutation_def call_next_def
        split: if_splits option.splits)
qed

lemma forged_token_sample:
  "jwt_verify (table_library circulating) (Some ''forged'') (secret confirming_options)
     (opt_iss confirming_options) = Inl (jwtError ''jwt malformed'')"
  by (simp add: table_library_def circulating_def)

lemma token_codec_round_trip:
  assumes "t1 div 1000 < t0 div 1000 + ttl"
  shows "jwt_sign (token_codec t0) p k ttl =
       Inr (Signed \<lparr>jti = jti p, iss = iss p, sub = sub p, scope = scope p,
                    iat = t0 div 1000, exp = t0 div 1000 + ttl\<rparr> k) \<and>
     jwt_verify (token_codec t1)
       (Some (Signed \<lparr>jti = jti p, iss = iss p, sub = sub p, scope = scope p,
                      iat = t0 div 1000, exp = t0 div 1000 + ttl\<rparr> k)) k (iss p) =
       Inr \<lparr>jti = jti p, iss = iss p, sub = sub p, scope = scope p,
            iat = t0 div 1000, exp = t0 div 1000 + ttl\<rparr>"
  using assms by (simp add: token_codec_def)


lemma guard_on_header_error:
  assumes "\<not> mutation (session st)"
    and "authenticateHeaderIfPresent lib req options = Inl err"
  shows "doRouteAuthenticateForMutation lib options req st = call_next (Some err) st"
  using assms by (simp add: doRouteAuthenticateForMutation_def)

lemma header_verification_failure:
  assumes "authorization req = Some (''Bearer '' @ tok)" and "CHR '' '' \<notin> set tok"
    and "jwt_verify lib (Some tok) (secret options) (opt_iss options) = Inl err"
  shows "authenticateHeaderIfPresent lib req options = Inl err"
  using header_bearer [OF assms(1,2), of lib options] assms(3) by simp

lemma header_sample:
  "authenticateHeaderIfPresent (table_library circulating) header_request confirming_options =
     Inr (Some session_claims)"
  by (simp add: authenticateHeaderIfPresent_def header_request_def is_bearer_def
      table_library_def circulating_def confirming_options_def session_claims_def Let_def)

lemma refresh_header_sample:
  "authenticateHeaderIfPresent (table_library circulating) refresh_header_request
     confirming_options = Inr (Some refresh_claims)"
  by (simp add: authenticateHeaderIfPresent_def refresh_header_request_def is_bearer_def
      table_library_def circulating_def confirming_options_def refresh_claims_def
      session_claims_def Let_def)

lemma header_absent:
  "authorization req = None \<or> authorization req = Some [] \<Longrightarrow>
     authenticateHeaderIfPresent lib req options = Inr None"
  by (auto simp: authenticateHeaderIfPresent_def)

lemma header_bad_format:
  assumes "authorization req = Some h" and "h \<noteq> []" and "drop 2 (split CHR '' '' h) \<noteq> []"
  shows "authenticateHeaderIfPresent lib req options =
     Inl (httpErrors 401 ''credentials bad format'')"
  using assms by (simp add: authenticateHeaderIfPresent_def Let_def)

lemma header_bad_scheme:
  assumes "authorization req = Some h" and "h \<noteq> []" and "drop 2 (split CHR '' '' h) = []"
    and "\<not> is_bearer (hd (split CHR '' '' h))"
  shows "authenticateHeaderIfPresent lib req options =
     Inl (httpErrors 401 ''credentials bad scheme'')"
  using assms by (simp add: authenticateHeaderIfPresent_def Let_def)

lemma association_on_header_error:
  assumes "authenticateHeaderIfPresent lib req options = Inl err"
  shows "doRouteAssociateAndRefresh lib e options req (fresh_state w) =
     call_next (Some err) (fresh_state w)"
proof -
  have "\<not> truthy (session_sub (session (fresh_state w :: (string, 'a) state)))"
    by (simp add: truthy_def fresh_state_def empty_session_def)
  with assms show ?thesis
    by (simp add: doRouteAssociateAndRefresh_def)
qed

lemma association_on_refresh_cookie_error:
  assumes "authorization req = None \<or> authorization req = Some []"
    and "cookies req cookieNames_refresh = Some jwt" and "jwt \<noteq> []"
    and "jwt_verify lib (Some jwt) (secret options) (opt_iss options) = Inl err"
  shows "doRouteAssociateAndRefresh lib e options req (fresh_state w) =
     call_next (Some err) (fresh_state w)"
proof -
  have t: "\<not> truthy (session_sub (session (fresh_state w :: (string, 'a) state)))"
    by (simp add: truthy_def fresh_state_def empty_session_def)
  have c: "authenticateCookie lib req cookieNames_refresh options = Inl err"
    using authenticateCookie_present [OF assms(2,3), of lib options] assms(4) by simp
  from t c header_absent [OF assms(1), of lib options] show ?thesis
    by (simp add: doRouteAssociateAndRefresh_def)
qed

lemma association_drops_session_cookie_error:
  assumes "authorization req = None \<or> authorization req = Some []"
    and "cookies req cookieNames_refresh = Some rjwt" and "rjwt \<noteq> []"
    and "jwt_verify lib (Some rjwt) (secret options) (opt_iss options) = Inr rd"
    and "scope rd = ScopeString ''refresh''"
    and "refreshSub options w (sub rd) = (Inr (sub rd), w')"
    and "cookies req cookieNames_session = Some sjwt" and "sjwt \<noteq> []"
    and "jwt_verify lib (Some sjwt) (secret options) (opt_iss options) = Inl err"
    and "jwt_sign lib \<lparr>jti = uuidV4 e 0, iss = opt_iss options, sub = sub rd,
            scope = ScopeString ''session''\<rparr> (secret options)
            (sessionMaxAge options div 1000) = Inr njwt"
  shows "next_calls (doRouteAssociateAndRefresh lib e options req (fresh_state w)) = [None] \<and>
     res_cookies (doRouteAssociateAndRefresh lib e options req (fresh_state w)) =
       [\<lparr>cookie_name = cookieNames_session, cookie_value = njwt, httpOnly = False,
         cookie_secure = secure req, maxAge = None\<rparr>]"
proof -
  have h: "authenticateHeaderIfPresent lib req options = Inr None"
    by (rule header_absent [OF assms(1)])
  have c: "authenticateCookie lib req cookieNames_refresh options = Inr (Some rd)"
    using authenticateCookie_present [OF assms(2,3), of lib options] assms(4) by simp
  have s: "authenticateCookie lib req cookieNames_session options = Inl err"
    using authenticateCookie_present [OF assms(7,8), of lib options] assms(9) by simp
  have m: "\<not> cookie_missing req cookieNames_refresh"
    using assms(2,3) by (simp add: cookie_missing_def)
  define st3 :: "(string, 'a) state"
    where "st3 = (fresh_state w)\<lparr>world := w', session := (extend_session empty_session
                \<lparr>promoted_sub = sub rd,
                 promoted_sensitive = (''sensitive'' \<in> set (scopeArray (scope rd))),
                 promoted_moderate = (''moderate'' \<in> set (scopeArray (scope rd)))\<rparr>)
                  \<lparr>decoded := Some rd\<rparr>\<rparr>"
  have f: "session_sub (session st3) = sub rd" "uuid_calls st3 = 0" "res_cookies st3 = []"
    "next_calls st3 = []"
    by (simp_all add: st3_def extend_session_def fresh_state_def)
  have l: "next_calls (loadSessionCookie lib e options req st3) = [None] \<and>
      res_cookies (loadSessionCookie lib e options req st3) =
       [\<lparr>cookie_name = cookieNames_session, cookie_value = njwt, httpOnly = False,
         cookie_secure = secure req, maxAge = None\<rparr>]"
    using assms(10) f
    by (simp add: loadSessionCookie_def s newSessionCookie_def call_next_def Let_def)
  have "doRouteAssociateAndRefresh lib e options req (fresh_state w) =
      loadSessionCookie lib e options req st3"
    using h c m assms(5,6)
    by (simp add: doRouteAssociateAndRefresh_def afterRefreshSub_def get_sub_def
        nextWithExistingSession_Some truthy_def fresh_state_def empty_session_def
        st3_def Let_def)
  with l show ?thesis by simp
qed

lemma promise_on_verification_failure:
  "jwt_verify lib jwt (secret options) (opt_iss options) = Inl err \<Longrightarrow>
     promiseAuthenticateForMutation lib options jwt = Inl err"
  by (simp add: promiseAuthenticateForMutation_def)

lemma refresh_cookie_sample:
  "jwt_verify (table_library circulating) (Some ''R1'') (secret confirming_options)
     (opt_iss confirming_options) = Inr refresh_claims"
  by (simp add: table_library_def circulating_def confirming_options_def refresh_claims_def)

lemma session_signing_sample:
  "jwt_sign (table_library circulating)
     \<lparr>jti = uuidV4 sample_env 0, iss = opt_iss confirming_options, sub = sub refresh_claims,
      scope = ScopeString ''session''\<rparr> (secret confirming_options)
     (sessionMaxAge confirming_options div 1000) = Inr ''session-for-t2abc''"
  by (simp add: table_library_def token_name_def refresh_claims_def)

section \<open>The association middleware on an absent subject\<close>

text \<open>
  Claim C10. A request has no \<open>Authorization\<close> header and no refresh cookie, and
  \<open>refreshSub\<close>, given the absent subject, resolves to the absent subject. Then the
  middleware continues with the existing session on an absent decoded credential:
  \<open>promoteDecodedToSession\<close> reads \<open>sub\<close> of \<open>undefined\<close> and raises a
  \<open>TypeError\<close>, which the promise chain passes to \<open>next\<close>. No context is established
  and no cookie is written. So the step establishes a session on such a request only if
  \<open>refreshSub\<close> does not return the absent subject unchanged.
\<close>

theorem absent_subject_unchanged_raises:
  assumes "authorization req = None"
    and "cookie_missing req cookieNames_refresh"
    and "refreshSub options w None = (Inr None, w')"
  shows "promoteDecodedToSession None = Inl (typeError ''sub'') \<and>
     doRouteAssociateAndRefresh lib e options req (fresh_state w) =
       call_next (Some (typeError ''sub'')) ((fresh_state w)\<lparr>world := w'\<rparr>)"
proof -
  have h: "authenticateHeaderIfPresent lib req options = Inr None"
    using assms(1) by (simp add: authenticateHeaderIfPresent_def)
  have c: "authenticateCookie lib req cookieNames_refresh options = Inr None"
    using assms(2) by (auto simp: authenticateCookie_def cookie_missing_def split: option.splits)
  have p: "promoteDecodedToSession None = Inl (typeError ''sub'')"
    by (simp add: promoteDecodedToSession_def)
  have "afterRefreshSub lib e options req False None (fresh_state w) =
      call_next (Some (typeError ''sub'')) ((fresh_state w)\<lparr>world := w'\<rparr>)"
    using assms(3)
    by (simp add: afterRefreshSub_def get_sub_def nextWithExistingSession_def p fresh_state_def)
  with h c p show ?thesis
    by (simp add: doRouteAssociateAndRefresh_def truthy_def fresh_state_def empty_session_def)
qed

theorem absent_subject_unchanged_raises_witness:
  "authorization bare_request = None \<and>
   cookie_missing bare_request cookieNames_refresh \<and>
   refreshSub confirming_options () None = (Inr None, ()) \<and>
   next_calls (doRouteAssociateAndRefresh (table_library []) sample_env confirming_options
       bare_request (fresh_state ())) = [Some (typeError ''sub'')] \<and>
   res_cookies (doRouteAssociateAndRefresh (table_library []) sample_env confirming_options
       bare_request (fresh_state ())) = [] \<and>
   session (doRouteAssociateAndRefresh (table_library []) sample_env confirming_options
       bare_request (fresh_state ())) = empty_session"
  using absent_subject_unchanged_raises [of bare_request confirming_options "()" "()"
      "table_library []" sample_env]
  by (simp add: cookie_missing_def call_next_def fresh_state_def bare_request_def
      confirming_options_def)

section \<open>A credential presented in the header\<close>



section \<open>First contact\<close>

text \<open>
  Claim C4. A request has no \<open>Authorization\<close> header and no cookies, and the server's
  \<open>refreshSub\<close> is configured. The registry holds nothing under the absent subject, and
  the two signings succeed. Then the response carries exactly two cookie writes, the
  refresh cookie and then the session cookie, whose tokens are signed for one subject, the
  tracker generated for this request; and the registry gains one member, made for that
  tracker and stored under it and under the member's generated handle.
\<close>

theorem first_contact_mints_pair:
  assumes "authorization req = None"
    and "cookies req = Map.empty"
    and "findByTracker w None = None"
    and "jwt_sign lib \<lparr>jti = uuidV4 e 0, iss = root_url, sub = Some (rnd (random_calls w)),
             scope = ScopeString ''refresh''\<rparr> key
           (refreshMaxAge (server_options root_url key rnd) div 1000) = Inr rjwt"
    and "jwt_sign lib \<lparr>jti = uuidV4 e 1, iss = root_url, sub = Some (rnd (random_calls w)),
             scope = ScopeString ''session''\<rparr> key
           (sessionMaxAge (server_options root_url key rnd) div 1000) = Inr sjwt"
  shows "res_cookies (doRouteAssociateAndRefresh lib e (server_options root_url key rnd) req
            (fresh_state w)) =
       [\<lparr>cookie_name = cookieNames_refresh, cookie_value = rjwt, httpOnly = True,
         cookie_secure = secure req,
         maxAge = Some (refreshMaxAge (server_options root_url key rnd))\<rparr>,
        \<lparr>cookie_name = cookieNames_session, cookie_value = sjwt, httpOnly = False,
         cookie_secure = secure req, maxAge = None\<rparr>] \<and>
     trackerToMember (world (doRouteAssociateAndRefresh lib e (server_options root_url key rnd)
            req (fresh_state w))) =
       (trackerToMember w)
         (Some (rnd (Suc (random_calls w))) \<mapsto>
            \<lparr>handle = rnd (Suc (random_calls w)),
             trackers = (if rnd (random_calls w) = [] then [] else [rnd (random_calls w)])\<rparr>,
          Some (rnd (random_calls w)) \<mapsto>
            \<lparr>handle = rnd (Suc (random_calls w)),
             trackers = (if rnd (random_calls w) = [] then [] else [rnd (random_calls w)])\<rparr>)"
proof -
  let ?options = "server_options root_url key rnd"
  obtain w2 where w2: "server_refreshSub rnd w None = (Inr (Some (rnd (random_calls w))), w2)"
    and t: "trackerToMember w2 = (trackerToMember w)
         (Some (rnd (Suc (random_calls w))) \<mapsto>
            \<lparr>handle = rnd (Suc (random_calls w)),
             trackers = (if rnd (random_calls w) = [] then [] else [rnd (random_calls w)])\<rparr>,
          Some (rnd (random_calls w)) \<mapsto>
            \<lparr>handle = rnd (Suc (random_calls w)),
             trackers = (if rnd (random_calls w) = [] then [] else [rnd (random_calls w)])\<rparr>)"
    using server_refreshSub_unknown [OF assms(3), of rnd] by simp
  define st1 :: "(string, registry) state" where "st1 = (fresh_state w)\<lparr>world := w2\<rparr>"
  have h: "authenticateHeaderIfPresent lib req ?options = Inr None"
    using assms(1) by (simp add: authenticateHeaderIfPresent_def)
  have c: "authenticateCookie lib req cookieNames_refresh ?options = Inr None"
    using assms(2) by (simp add: authenticateCookie_def)
  have o: "refreshSub ?options = server_refreshSub rnd" "opt_iss ?options = root_url"
    "secret ?options = key"
    by (simp_all add: server_options_def)
  have r: "doRouteAssociateAndRefresh lib e ?options req (fresh_state w) =
      nextWithNewSession lib e ?options req (Some (rnd (random_calls w))) st1"
    using h c w2
    by (simp add: doRouteAssociateAndRefresh_def afterRefreshSub_def get_sub_def o
        truthy_def fresh_state_def empty_session_def st1_def)
  have n: "res_cookies (snd (newRefreshAndSessionCookie lib e req (Some (rnd (random_calls w)))
        ?options st1)) =
       [\<lparr>cookie_name = cookieNames_refresh, cookie_value = rjwt, httpOnly = True,
         cookie_secure = secure req,
         maxAge = Some (refreshMaxAge ?options)\<rparr>,
        \<lparr>cookie_name = cookieNames_session, cookie_value = sjwt, httpOnly = False,
         cookie_secure = secure req, maxAge = None\<rparr>]"
    using assms(4,5)
    by (simp add: newRefreshAndSessionCookie_def newRefreshCookie_def newSessionCookie_def o
        st1_def fresh_state_def Let_def)
  show ?thesis
    unfolding r using nextWithNewSession_effects [of lib e ?options req _ st1] n t
    by (simp add: st1_def)
qed

theorem first_contact_mints_pair_witness:
  "authorization bare_request = None \<and>
   cookies bare_request = Map.empty \<and>
   findByTracker empty_registry None = None \<and>
   jwt_sign (table_library [])
     \<lparr>jti = uuidV4 sample_env 0, iss = ''http://localhost:3000'',
      sub = Some (sample_random (random_calls empty_registry)),
      scope = ScopeString ''refresh''\<rparr> ''keyboard-cat''
     (refreshMaxAge (server_options ''http://localhost:3000'' ''keyboard-cat'' sample_random)
        div 1000) = Inr ''refresh-for-k3x9q'' \<and>
   jwt_sign (table_library [])
     \<lparr>jti = uuidV4 sample_env 1, iss = ''http://localhost:3000'',
      sub = Some (sample_random (random_calls empty_registry)),
      scope = ScopeString ''session''\<rparr> ''keyboard-cat''
     (sessionMaxAge (server_options ''http://localhost:3000'' ''keyboard-cat'' sample_random)
        div 1000) = Inr ''session-for-k3x9q'' \<and>
   res_cookies (doRouteAssociateAndRefresh (table_library []) sample_env
       (server_options ''http://localhost:3000'' ''keyboard-cat'' sample_random) bare_request
       (fresh_state empty_registry)) =
     [\<lparr>cookie_name = ''refresh.jwt'', cookie_value = ''refresh-for-k3x9q'', httpOnly = True,
       cookie_secure = False, maxAge = Some 31536000000\<rparr>,
      \<lparr>cookie_name = ''session.jwt'', cookie_value = ''session-for-k3x9q'', httpOnly = False,
       cookie_secure = False, maxAge = None\<rparr>] \<and>
   trackerToMember (world (doRouteAssociateAndRefresh (table_library []) sample_env
       (server_options ''http://localhost:3000'' ''keyboard-cat'' sample_random) bare_request
       (fresh_state empty_registry))) =
     [Some ''p0zz1'' \<mapsto> \<lparr>handle = ''p0zz1'', trackers = [''k3x9q'']\<rparr>,
      Some ''k3x9q'' \<mapsto> \<lparr>handle = ''p0zz1'', trackers = [''k3x9q'']\<rparr>]"
  using first_contact_mints_pair [of bare_request empty_registry "table_library []" sample_env
      "''http://localhost:3000''" sample_random "''keyboard-cat''" "''refresh-for-k3x9q''"
      "''session-for-k3x9q''"]
  by (simp add: bare_request_def empty_registry_def findByTracker_def table_library_def
      token_name_def sample_random_def server_options_def cookieNames_refresh_def
      cookieNames_session_def)

section \<open>The mutation guard\<close>

text \<open>
  Claim C5, amended. The guard runs on a context whose \<open>mutation\<close> flag is not set.
  On a request whose header presents no refresh token, it sets the flag and continues
  without an error if and only if the header presents a session credential that verifies
  and whose subject equals the subject of the context. With no header, or an empty one,
  it ends with the 401 error \<open>credentials required\<close>; a subject that differs ends with
  the 401 error \<open>credentials mismatch\<close>; and an error of the header reader, that of a
  failed verification of the presented token included, ends the request with that very
  error: the guard gives it no status of its own.
\<close>

theorem guard_decides:
  assumes "\<not> mutation (session st)"
  shows "((\<forall>d. authenticateHeaderIfPresent lib req options = Inr (Some d) \<longrightarrow>
             scope d \<noteq> ScopeString ''refresh'') \<longrightarrow>
          ((\<exists>d. authenticateHeaderIfPresent lib req options = Inr (Some d) \<and>
                scope d \<noteq> ScopeString ''refresh'' \<and>
                sub d = session_sub (session st)) \<longleftrightarrow>
           mutation (session (doRouteAuthenticateForMutation lib options req st)) \<and>
           next_calls (doRouteAuthenticateForMutation lib options req st) =
             next_calls st @ [None])) \<and>
     (authorization req = None \<or> authorization req = Some [] \<longrightarrow>
        doRouteAuthenticateForMutation lib options req st =
          call_next (Some (httpErrors 401 ''credentials required'')) st) \<and>
     (\<forall>err. authenticateHeaderIfPresent lib req options = Inl err \<longrightarrow>
        doRouteAuthenticateForMutation lib options req st = call_next (Some err) st) \<and>
     (\<forall>tok err. authorization req = Some (''Bearer '' @ tok) \<and> CHR '' '' \<notin> set tok \<and>
          jwt_verify lib (Some tok) (secret options) (opt_iss options) = Inl err \<longrightarrow>
        doRouteAuthenticateForMutation lib options req st = call_next (Some err) st) \<and>
     (\<forall>d. authenticateHeaderIfPresent lib req options = Inr (Some d) \<and>
            sub d \<noteq> session_sub (session st) \<longrightarrow>
        doRouteAuthenticateForMutation lib options req st =
          call_next (Some (httpErrors 401 ''credentials mismatch'')) st) \<and>
     status (httpErrors 401 ''credentials required'') = Some 401 \<and>
     status (httpErrors 401 ''credentials mismatch'') = Some 401"
proof -
  have a: "authorization req = None \<or> authorization req = Some [] \<Longrightarrow>
      authenticateHeaderIfPresent lib req options = Inr None"
    by (auto simp: authenticateHeaderIfPresent_def)
  have v: "\<forall>tok err. authorization req = Some (''Bearer '' @ tok) \<and> CHR '' '' \<notin> set tok \<and>
          jwt_verify lib (Some tok) (secret options) (opt_iss options) = Inl err \<longrightarrow>
        doRouteAuthenticateForMutation lib options req st = call_next (Some err) st"
    using guard_on_header_error [OF assms] header_verification_failure by blast
  have r: "(\<forall>d. authenticateHeaderIfPresent lib req options = Inr (Some d) \<longrightarrow>
             scope d \<noteq> ScopeString ''refresh'') \<longrightarrow>
          ((\<exists>d. authenticateHeaderIfPresent lib req options = Inr (Some d) \<and>
                scope d \<noteq> ScopeString ''refresh'' \<and>
                sub d = session_sub (session st)) \<longleftrightarrow>
           mutation (session (doRouteAuthenticateForMutation lib options req st)) \<and>
           next_calls (doRouteAuthenticateForMutation lib options req st) =
             next_calls st @ [None])"
    using assms
    by (cases "authenticateHeaderIfPresent lib req options")
      (auto simp: doRouteAuthenticateForMutation_def call_next_def split: option.splits)
  have o: "(authorization req = None \<or> authorization req = Some [] \<longrightarrow>
        doRouteAuthenticateForMutation lib options req st =
          call_next (Some (httpErrors 401 ''credentials required'')) st) \<and>
     (\<forall>err. authenticateHeaderIfPresent lib req options = Inl err \<longrightarrow>
        doRouteAuthenticateForMutation lib options req st = call_next (Some err) st) \<and>
     (\<forall>d. authenticateHeaderIfPresent lib req options = Inr (Some d) \<and>
            sub d \<noteq> session_sub (session st) \<longrightarrow>
        doRouteAuthenticateForMutation lib options req st =
          call_next (Some (httpErrors 401 ''credentials mismatch'')) st) \<and>
     status (httpErrors 401 ''credentials required'') = Some 401 \<and>
     status (httpErrors 401 ''credentials mismatch'') = Some 401"
    using assms a
    by (cases "authenticateHeaderIfPresent lib req options")
      (auto simp: doRouteAuthenticateForMutation_def call_next_def httpErrors_def
         split: option.splits)
  from r o v show ?thesis
    by (intro conjI) (elim conjE, assumption)+
qed

theorem guard_decides_witness:
  "\<not> mutation (session cookie_only_state) \<and>
   authenticateHeaderIfPresent (table_library circulating) header_request confirming_options =
     Inr (Some session_claims) \<and>
   scope session_claims \<noteq> ScopeString ''refresh'' \<and>
   sub session_claims = session_sub (session cookie_only_state) \<and>
   mutation (session (doRouteAuthenticateForMutation (table_library circulating)
     confirming_options header_request cookie_only_state)) \<and>
   next_calls (doRouteAuthenticateForMutation (table_library circulating)
     confirming_options header_request cookie_only_state) =
     next_calls cookie_only_state @ [None] \<and>
   authorization bare_request = None \<and>
   doRouteAuthenticateForMutation (table_library circulating) confirming_options
     bare_request cookie_only_state =
     call_next (Some (httpErrors 401 ''credentials required'')) cookie_only_state \<and>
   authorization forged_header_request = Some (''Bearer '' @ ''forged'') \<and>
   jwt_verify (table_library circulating) (Some ''forged'') (secret confirming_options)
     (opt_iss confirming_options) = Inl (jwtError ''jwt malformed'') \<and>
   doRouteAuthenticateForMutation (table_library circulating) confirming_options
     forged_header_request cookie_only_state =
     call_next (Some (jwtError ''jwt malformed'')) cookie_only_state \<and>
   \<not> mutation (session other_subject_state) \<and>
   sub session_claims \<noteq> session_sub (session other_subject_state) \<and>
   doRouteAuthenticateForMutation (table_library circulating) confirming_options
     header_request other_subject_state =
     call_next (Some (httpErrors 401 ''credentials mismatch'')) other_subject_state"
proof -
  have m: "\<not> mutation (session cookie_only_state)"
    by (simp add: cookie_only_state_def empty_session_def)
  have s1: "scope session_claims \<noteq> ScopeString ''refresh''"
    by (simp add: session_claims_def)
  have s2: "sub session_claims = session_sub (session cookie_only_state)"
    by (simp add: session_claims_def cookie_only_state_def)
  have n: "\<forall>d. authenticateHeaderIfPresent (table_library circulating) header_request
      confirming_options = Inr (Some d) \<longrightarrow> scope d \<noteq> ScopeString ''refresh''"
    using s1 by (simp add: header_sample)
  have e: "\<exists>d. authenticateHeaderIfPresent (table_library circulating) header_request
      confirming_options = Inr (Some d) \<and> scope d \<noteq> ScopeString ''refresh'' \<and>
      sub d = session_sub (session cookie_only_state)"
    using s1 s2 by (simp add: header_sample)
  note t = guard_decides [OF m, of "table_library circulating" header_request
      confirming_options, THEN conjunct1, THEN mp, OF n]
  from t e have g: "mutation (session (doRouteAuthenticateForMutation
       (table_library circulating) confirming_options header_request cookie_only_state)) \<and>
   next_calls (doRouteAuthenticateForMutation (table_library circulating)
     confirming_options header_request cookie_only_state) =
     next_calls cookie_only_state @ [None]"
    by (rule iffD1)
  note g1 = g [THEN conjunct1]
  note g2 = g [THEN conjunct2]
  have b: "authorization bare_request = None"
    by (simp add: bare_request_def)
  note u = guard_decides [OF m, of "table_library circulating" bare_request
      confirming_options, THEN conjunct2, THEN conjunct1, THEN mp, OF disjI1, OF b]
  have c1: "authorization forged_header_request = Some (''Bearer '' @ ''forged'')"
    by (simp add: forged_header_request_def)
  have c0: "CHR '' '' \<notin> set ''forged''"
    by simp
  note c2 = forged_token_sample
  note v = guard_decides [OF m, of "table_library circulating" forged_header_request
      confirming_options, THEN conjunct2, THEN conjunct2, THEN conjunct2, THEN conjunct1,
      THEN spec, THEN spec, THEN mp, OF conjI [OF c1 conjI [OF c0 c2]]]
  have k1: "\<not> mutation (session other_subject_state)"
    by (simp add: other_subject_state_def empty_session_def)
  have k2: "sub session_claims \<noteq> session_sub (session other_subject_state)"
    by (simp add: other_subject_state_def session_claims_def)
  note x = guard_decides [OF k1, of "table_library circulating" header_request
      confirming_options, THEN conjunct2, THEN conjunct2, THEN conjunct2, THEN conjunct2,
      THEN conjunct1, THEN spec, THEN mp, OF conjI [OF header_sample k2]]
  show ?thesis
    by (intro conjI) (fact m header_sample s1 s2 g1 g2 b u c1 c2 v k1 k2 x)+
qed

text \<open>
  Claim C5 as stated has a failed verification end in a 401. The error of a failed
  verification is the library's own; for a library whose errors carry no status, as those
  of \<open>jsonwebtoken\<close> do, the request ends with an error that has none.
\<close>

theorem guard_verification_failure_carries_no_status:
  "jwt_verify (table_library circulating) (Some ''forged'') (secret confirming_options)
     (opt_iss confirming_options) = Inl (jwtError ''jwt malformed'') \<and>
   next_calls (doRouteAuthenticateForMutation (table_library circulating)
     confirming_options forged_header_request
     ((fresh_state ())\<lparr>session := empty_session\<lparr>session_sub := Some ''t2abc''\<rparr>\<rparr>)) =
     [Some (jwtError ''jwt malformed'')] \<and>
   status (jwtError ''jwt malformed'') \<noteq> Some 401"
  by (simp add: forged_header_request_def table_library_def circulating_def
      confirming_options_def fresh_state_def empty_session_def
      doRouteAuthenticateForMutation_def authenticateHeaderIfPresent_def is_bearer_def
      call_next_def jwtError_def)

text \<open>
  What the amended claim leaves out. The guard does not read the scope of the credential:
  a refresh token presented in the header, which the description of the module keeps for
  refreshing the session token and for nothing else, is accepted like a session token.
\<close>

lemma guard_accepts_refresh_token:
  "scope refresh_claims = ScopeString ''refresh'' \<and>
   doRouteAuthenticateForMutation (table_library circulating) confirming_options
     refresh_header_request cookie_only_state =
     call_next None (cookie_only_state\<lparr>session := (session cookie_only_state)
        \<lparr>mutation := True\<rparr>\<rparr>)"
  by (simp add: doRouteAuthenticateForMutation_def refresh_header_sample
      cookie_only_state_def empty_session_def refresh_claims_def fresh_state_def)

section \<open>A valid pair of cookies\<close>

text \<open>
  Claim C6. A request has no \<open>Authorization\<close> header and presents a refresh cookie
  that verifies and whose subject the revocation check returns unchanged, together with a
  session cookie that verifies, has the same subject and is not almost expired. Then the
  middleware writes no cookie and continues without an error.
\<close>

theorem valid_cookie_pair_writes_nothing:
  assumes "authorization req = None"
    and "cookies req cookieNames_refresh = Some rjwt" and "rjwt \<noteq> []"
    and "jwt_verify lib (Some rjwt) (secret options) (opt_iss options) = Inr rd"
    and "refreshSub options w (sub rd) = (Inr (sub rd), w')"
    and "cookies req cookieNames_session = Some sjwt" and "sjwt \<noteq> []"
    and "jwt_verify lib (Some sjwt) (secret options) (opt_iss options) = Inr sd"
    and "sub sd = sub rd"
    and "\<not> almostExpired e sd (JsObject options)"
  shows "res_cookies (doRouteAssociateAndRefresh lib e options req (fresh_state w)) = [] \<and>
     next_calls (doRouteAssociateAndRefresh lib e options req (fresh_state w)) = [None]"
proof -
  have h: "authenticateHeaderIfPresent lib req options = Inr None"
    using assms(1) by (simp add: authenticateHeaderIfPresent_def)
  have c: "authenticateCookie lib req cookieNames_refresh options = Inr (Some rd)"
    using authenticateCookie_present [OF assms(2,3), of lib options] assms(4) by simp
  have s: "authenticateCookie lib req cookieNames_session options = Inr (Some sd)"
    using authenticateCookie_present [OF assms(6,7), of lib options] assms(8) by simp
  have m: "\<not> cookie_missing req cookieNames_refresh"
    using assms(2,3) by (simp add: cookie_missing_def)
  define st3 :: "(string, 'a) state"
    where "st3 = (fresh_state w)\<lparr>world := w', session := (extend_session empty_session
                \<lparr>promoted_sub = sub rd,
                 promoted_sensitive = (''sensitive'' \<in> set (scopeArray (scope rd))),
                 promoted_moderate = (''moderate'' \<in> set (scopeArray (scope rd)))\<rparr>)
                  \<lparr>decoded := Some rd\<rparr>\<rparr>"
  have l: "loadSessionCookie lib e options req st3 = call_next None st3"
    using s assms(9)
    by (simp add: loadSessionCookie_def almostExpired_number st3_def extend_session_def)
  have "doRouteAssociateAndRefresh lib e options req (fresh_state w) =
      (if scope rd \<noteq> ScopeString ''refresh'' then call_next None st3
       else loadSessionCookie lib e options req st3)"
    using h c m assms(5)
    by (simp add: doRouteAssociateAndRefresh_def afterRefreshSub_def get_sub_def
        nextWithExistingSession_Some truthy_def fresh_state_def empty_session_def
        st3_def Let_def)
  then have r: "doRouteAssociateAndRefresh lib e options req (fresh_state w) =
      call_next None st3"
    by (simp only: l if_cancel)
  show ?thesis
    unfolding r by (simp add: call_next_def st3_def fresh_state_def)
qed

theorem valid_cookie_pair_writes_nothing_witness:
  "authorization cookie_request = None \<and>
   cookies cookie_request cookieNames_refresh = Some ''R1'' \<and> ''R1'' \<noteq> [] \<and>
   jwt_verify (table_library circulating) (Some ''R1'') (secret confirming_options)
     (opt_iss confirming_options) = Inr refresh_claims \<and>
   refreshSub confirming_options () (sub refresh_claims) = (Inr (sub refresh_claims), ()) \<and>
   cookies cookie_request cookieNames_session = Some ''S1'' \<and> ''S1'' \<noteq> [] \<and>
   jwt_verify (table_library circulating) (Some ''S1'') (secret confirming_options)
     (opt_iss confirming_options) = Inr session_claims \<and>
   sub session_claims = sub refresh_claims \<and>
   \<not> almostExpired early_env session_claims (JsObject confirming_options) \<and>
   res_cookies (doRouteAssociateAndRefresh (table_library circulating) early_env
     confirming_options cookie_request (fresh_state ())) = [] \<and>
   next_calls (doRouteAssociateAndRefresh (table_library circulating) early_env
     confirming_options cookie_request (fresh_state ())) = [None]"
  using valid_cookie_pair_writes_nothing [of cookie_request "''R1''"
      "table_library circulating" confirming_options refresh_claims "()" "()" "''S1''"
      session_claims early_env]
  by (simp add: cookie_request_def table_library_def circulating_def confirming_options_def
      session_claims_def refresh_claims_def cookieNames_refresh_def cookieNames_session_def
      almostExpired_def get_sessionEarlyRefresh_def early_env_def)

section \<open>Cookie writes and other effects of the association middleware\<close>


text \<open>
  Claim C8. The cookie names written for one request are, in order, none, the session
  cookie alone, the refresh cookie alone, or the refresh cookie and then the session
  cookie. So whenever both are written the refresh cookie is written first; and the joint
  mint \<open>newRefreshAndSessionCookie\<close> never writes the session cookie without having
  written the refresh cookie before it.
\<close>

theorem refresh_cookie_written_first:
  "(\<exists>ws. res_cookies (doRouteAssociateAndRefresh lib e options req st) = res_cookies st @ ws \<and>
      map cookie_name ws \<in> set [[], [cookieNames_session], [cookieNames_refresh],
         [cookieNames_refresh, cookieNames_session]] \<and>
      (cookieNames_refresh \<in> set (map cookie_name ws) \<and>
       cookieNames_session \<in> set (map cookie_name ws) \<longrightarrow>
         map cookie_name ws = [cookieNames_refresh, cookieNames_session])) \<and>
   (\<exists>ws. res_cookies (snd (newRefreshAndSessionCookie lib e req v options st)) =
        res_cookies st @ ws \<and>
      map cookie_name ws \<in> set [[], [cookieNames_refresh],
         [cookieNames_refresh, cookieNames_session]])"
proof (rule conjI)
  obtain ws where ws: "res_cookies (doRouteAssociateAndRefresh lib e options req st) =
      res_cookies st @ ws"
    "map cookie_name ws \<in> set [[], [cookieNames_session], [cookieNames_refresh],
         [cookieNames_refresh, cookieNames_session]]"
    using doRoute_writes [of lib e options req st] by blast
  have "cookieNames_refresh \<in> set (map cookie_name ws) \<and>
       cookieNames_session \<in> set (map cookie_name ws) \<longrightarrow>
         map cookie_name ws = [cookieNames_refresh, cookieNames_session]"
    using both_names_ordered [OF ws(2)] by (intro impI) (elim conjE)
  with ws show "\<exists>ws. res_cookies (doRouteAssociateAndRefresh lib e options req st) =
        res_cookies st @ ws \<and>
      map cookie_name ws \<in> set [[], [cookieNames_session], [cookieNames_refresh],
         [cookieNames_refresh, cookieNames_session]] \<and>
      (cookieNames_refresh \<in> set (map cookie_name ws) \<and>
       cookieNames_session \<in> set (map cookie_name ws) \<longrightarrow>
         map cookie_name ws = [cookieNames_refresh, cookieNames_session])"
    by (intro exI [of _ ws] conjI)
next
  obtain r st' where p: "newRefreshAndSessionCookie lib e req v options st = (r, st')"
    by (cases "newRefreshAndSessionCookie lib e req v options st")
  from newRefreshAndSessionCookie_cases [OF p] p
  show "\<exists>ws. res_cookies (snd (newRefreshAndSessionCookie lib e req v options st)) =
        res_cookies st @ ws \<and>
      map cookie_name ws \<in> set [[], [cookieNames_refresh],
         [cookieNames_refresh, cookieNames_session]]"
    by simp
qed

theorem refresh_cookie_written_first_witness:
  "cookieNames_refresh \<in> set (map cookie_name (res_cookies
      (doRouteAssociateAndRefresh (table_library []) sample_env
         (server_options ''http://localhost:3000'' ''keyboard-cat'' sample_random) bare_request
         (fresh_state empty_registry)))) \<and>
   cookieNames_session \<in> set (map cookie_name (res_cookies
      (doRouteAssociateAndRefresh (table_library []) sample_env
         (server_options ''http://localhost:3000'' ''keyboard-cat'' sample_random) bare_request
         (fresh_state empty_registry)))) \<and>
   map cookie_name (res_cookies
      (doRouteAssociateAndRefresh (table_library []) sample_env
         (server_options ''http://localhost:3000'' ''keyboard-cat'' sample_random) bare_request
         (fresh_state empty_registry))) = [cookieNames_refresh, cookieNames_session]"
proof -
  define st where "st = doRouteAssociateAndRefresh (table_library []) sample_env
         (server_options ''http://localhost:3000'' ''keyboard-cat'' sample_random) bare_request
         (fresh_state empty_registry)"
  have n: "map cookie_name (res_cookies st) = [cookieNames_refresh, cookieNames_session]"
    unfolding st_def by (rule first_contact_sample_cookies)
  have r: "cookieNames_refresh \<in> set (map cookie_name (res_cookies st))"
    and s: "cookieNames_session \<in> set (map cookie_name (res_cookies st))"
    unfolding n by simp_all
  have e: "res_cookies (fresh_state empty_registry :: (string, registry) state) = []"
    by (simp add: fresh_state_def)
  from refresh_cookie_written_first [of "table_library []" sample_env
      "server_options ''http://localhost:3000'' ''keyboard-cat'' sample_random" bare_request
      "fresh_state empty_registry", THEN conjunct1, folded st_def]
  obtain ws where ws: "res_cookies st = res_cookies (fresh_state empty_registry) @ ws"
    and o: "cookieNames_refresh \<in> set (map cookie_name ws) \<and>
       cookieNames_session \<in> set (map cookie_name ws) \<longrightarrow>
         map cookie_name ws = [cookieNames_refresh, cookieNames_session]"
    by (elim exE conjE)
  have "ws = res_cookies st"
    unfolding ws e by simp
  with o r s have "map cookie_name (res_cookies st) = [cookieNames_refresh, cookieNames_session]"
    by simp
  with r s show ?thesis unfolding st_def by (intro conjI)
qed

section \<open>The errors a request can end with\<close>

text \<open>
  Claim C2, amended. A header of more than two parts ends the request, at the association
  middleware and at the guard, with the 401 error \<open>credentials bad format\<close>, and a
  scheme other than \<open>Bearer\<close> with the 401 error \<open>credentials bad scheme\<close>; at the
  guard a missing header ends it with the 401 error \<open>credentials required\<close> and a
  subject that differs with the 401 error \<open>credentials mismatch\<close>. A failed
  verification of the token in the header ends the request, at both, with the error of
  the verification as the library made it, and so does, at the association middleware, a
  failed verification of the refresh cookie of a request without a header;
  \<open>promiseAuthenticateForMutation\<close> is rejected with that error. A failed verification
  of the session cookie ends nothing: the error is dropped, a session cookie is minted and
  the request continues. Conversely, an error either middleware passes to \<open>next\<close> is
  one of these 401 errors or an error it received (of a verification, of a signing, of a
  rejected \<open>refreshSub\<close>, or the \<open>TypeError\<close> of an absent credential): the module
  builds no error of status 403 or 404, and gives no status to an error it did not build.
\<close>

theorem core_errors_classified:
  "(authorization req = Some h \<and> h \<noteq> [] \<and> drop 2 (split CHR '' '' h) \<noteq> [] \<longrightarrow>
      doRouteAssociateAndRefresh lib e options req (fresh_state w) =
        call_next (Some (httpErrors 401 ''credentials bad format'')) (fresh_state w) \<and>
      (\<not> mutation (session st) \<longrightarrow>
         doRouteAuthenticateForMutation lib options req st =
           call_next (Some (httpErrors 401 ''credentials bad format'')) st)) \<and>
   (authorization req = Some h \<and> h \<noteq> [] \<and> drop 2 (split CHR '' '' h) = [] \<and>
      \<not> is_bearer (hd (split CHR '' '' h)) \<longrightarrow>
      doRouteAssociateAndRefresh lib e options req (fresh_state w) =
        call_next (Some (httpErrors 401 ''credentials bad scheme'')) (fresh_state w) \<and>
      (\<not> mutation (session st) \<longrightarrow>
         doRouteAuthenticateForMutation lib options req st =
           call_next (Some (httpErrors 401 ''credentials bad scheme'')) st)) \<and>
   (authorization req = Some (''Bearer '' @ tok) \<and> CHR '' '' \<notin> set tok \<and>
      jwt_verify lib (Some tok) (secret options) (opt_iss options) = Inl err \<longrightarrow>
      doRouteAssociateAndRefresh lib e options req (fresh_state w) =
        call_next (Some err) (fresh_state w) \<and>
      (\<not> mutation (session st) \<longrightarrow>
         doRouteAuthenticateForMutation lib options req st = call_next (Some err) st)) \<and>
   ((authorization req = None \<or> authorization req = Some []) \<and>
      cookies req cookieNames_refresh = Some jwt \<and> jwt \<noteq> [] \<and>
      jwt_verify lib (Some jwt) (secret options) (opt_iss options) = Inl err \<longrightarrow>
      doRouteAssociateAndRefresh lib e options req (fresh_state w) =
        call_next (Some err) (fresh_state w)) \<and>
   ((authorization req = None \<or> authorization req = Some []) \<and>
      cookies req cookieNames_refresh = Some rjwt \<and> rjwt \<noteq> [] \<and>
      jwt_verify lib (Some rjwt) (secret options) (opt_iss options) = Inr rd \<and>
      scope rd = ScopeString ''refresh'' \<and>
      refreshSub options w (sub rd) = (Inr (sub rd), w') \<and>
      cookies req cookieNames_session = Some sjwt \<and> sjwt \<noteq> [] \<and>
      jwt_verify lib (Some sjwt) (secret options) (opt_iss options) = Inl err \<and>
      jwt_sign lib \<lparr>jti = uuidV4 e 0, iss = opt_iss options, sub = sub rd,
          scope = ScopeString ''session''\<rparr> (secret options)
          (sessionMaxAge options div 1000) = Inr njwt \<longrightarrow>
      next_calls (doRouteAssociateAndRefresh lib e options req (fresh_state w)) = [None] \<and>
      res_cookies (doRouteAssociateAndRefresh lib e options req (fresh_state w)) =
        [\<lparr>cookie_name = cookieNames_session, cookie_value = njwt, httpOnly = False,
          cookie_secure = secure req, maxAge = None\<rparr>]) \<and>
   (\<not> mutation (session st) \<and>
      (authorization req = None \<or> authorization req = Some []) \<longrightarrow>
      doRouteAuthenticateForMutation lib options req st =
        call_next (Some (httpErrors 401 ''credentials required'')) st) \<and>
   (\<not> mutation (session st) \<and>
      authenticateHeaderIfPresent lib req options = Inr (Some d) \<and>
      sub d \<noteq> session_sub (session st) \<longrightarrow>
      doRouteAuthenticateForMutation lib options req st =
        call_next (Some (httpErrors 401 ''credentials mismatch'')) st) \<and>
   (jwt_verify lib pjwt (secret options) (opt_iss options) = Inl err \<longrightarrow>
      promiseAuthenticateForMutation lib options pjwt = Inl err) \<and>
   (status (httpErrors 401 ''credentials bad format'') = Some 401 \<and>
    status (httpErrors 401 ''credentials bad scheme'') = Some 401 \<and>
    status (httpErrors 401 ''credentials required'') = Some 401 \<and>
    status (httpErrors 401 ''credentials mismatch'') = Some 401) \<and>
   (Some err \<in> set (next_calls
        (doRouteAssociateAndRefresh lib e options req (fresh_state w))) \<longrightarrow>
      err \<in> set [httpErrors 401 ''credentials bad format'',
                 httpErrors 401 ''credentials bad scheme''] \<or>
      (\<exists>t. jwt_verify lib t (secret options) (opt_iss options) = Inl err) \<or>
      (\<exists>p ttl. jwt_sign lib p (secret options) ttl = Inl err) \<or>
      (\<exists>w0 s w1. refreshSub options w0 s = (Inl err, w1)) \<or>
      err = typeError ''sub'') \<and>
   (next_calls (doRouteAuthenticateForMutation lib options req st) =
        next_calls st @ [Some err] \<longrightarrow>
      err \<in> set [httpErrors 401 ''credentials bad format'',
                 httpErrors 401 ''credentials bad scheme'',
                 httpErrors 401 ''credentials required'',
                 httpErrors 401 ''credentials mismatch''] \<or>
      (\<exists>t. jwt_verify lib t (secret options) (opt_iss options) = Inl err))"
proof -
  have both: "doRouteAssociateAndRefresh lib e options req (fresh_state w) =
        call_next (Some x) (fresh_state w) \<and>
      (\<not> mutation (session st) \<longrightarrow>
         doRouteAuthenticateForMutation lib options req st = call_next (Some x) st)"
    if "authenticateHeaderIfPresent lib req options = Inl x" for x
  proof (intro conjI impI)
    show "doRouteAssociateAndRefresh lib e options req (fresh_state w) =
        call_next (Some x) (fresh_state w)"
      by (rule association_on_header_error [OF that])
    assume "\<not> mutation (session st)"
    then show "doRouteAuthenticateForMutation lib options req st = call_next (Some x) st"
      using that by (rule guard_on_header_error)
  qed
  have c1: "authorization req = Some h \<and> h \<noteq> [] \<and> drop 2 (split CHR '' '' h) \<noteq> [] \<longrightarrow>
      doRouteAssociateAndRefresh lib e options req (fresh_state w) =
        call_next (Some (httpErrors 401 ''credentials bad format'')) (fresh_state w) \<and>
      (\<not> mutation (session st) \<longrightarrow>
         doRouteAuthenticateForMutation lib options req st =
           call_next (Some (httpErrors 401 ''credentials bad format'')) st)"
    by (intro impI, elim conjE, rule both, rule header_bad_format)
  have c2: "authorization req = Some h \<and> h \<noteq> [] \<and> drop 2 (split CHR '' '' h) = [] \<and>
      \<not> is_bearer (hd (split CHR '' '' h)) \<longrightarrow>
      doRouteAssociateAndRefresh lib e options req (fresh_state w) =
        call_next (Some (httpErrors 401 ''credentials bad scheme'')) (fresh_state w) \<and>
      (\<not> mutation (session st) \<longrightarrow>
         doRouteAuthenticateForMutation lib options req st =
           call_next (Some (httpErrors 401 ''credentials bad scheme'')) st)"
    by (intro impI, elim conjE, rule both, rule header_bad_scheme)
  have c3: "authorization req = Some (''Bearer '' @ tok) \<and> CHR '' '' \<notin> set tok \<and>
      jwt_verify lib (Some tok) (secret options) (opt_iss options) = Inl err \<longrightarrow>
      doRouteAssociateAndRefresh lib e options req (fresh_state w) =
        call_next (Some err) (fresh_state w) \<and>
      (\<not> mutation (session st) \<longrightarrow>
         doRouteAuthenticateForMutation lib options req st = call_next (Some err) st)"
    by (intro impI, elim conjE, rule both, rule header_verification_failure)
  have c4: "(authorization req = None \<or> authorization req = Some []) \<and>
      cookies req cookieNames_refresh = Some jwt \<and> jwt \<noteq> [] \<and>
      jwt_verify lib (Some jwt) (secret options) (opt_iss options) = Inl err \<longrightarrow>
      doRouteAssociateAndRefresh lib e options req (fresh_state w) =
        call_next (Some err) (fresh_state w)"
    by (intro impI, elim conjE, rule association_on_refresh_cookie_error)
  have c5: "(authorization req = None \<or> authorization req = Some []) \<and>
      cookies req cookieNames_refresh = Some rjwt \<and> rjwt \<noteq> [] \<and>
      jwt_verify lib (Some rjwt) (secret options) (opt_iss options) = Inr rd \<and>
      scope rd = ScopeString ''refresh'' \<and>
      refreshSub options w (sub rd) = (Inr (sub rd), w') \<and>
      cookies req cookieNames_session = Some sjwt \<and> sjwt \<noteq> [] \<and>
      jwt_verify lib (Some sjwt) (secret options) (opt_iss options) = Inl err \<and>
      jwt_sign lib \<lparr>jti = uuidV4 e 0, iss = opt_iss options, sub = sub rd,
          scope = ScopeString ''session''\<rparr> (secret options)
          (sessionMaxAge options div 1000) = Inr njwt \<longrightarrow>
      next_calls (doRouteAssociateAndRefresh lib e options req (fresh_state w)) = [None] \<and>
      res_cookies (doRouteAssociateAndRefresh lib e options req (fresh_state w)) =
        [\<lparr>cookie_name = cookieNames_session, cookie_value = njwt, httpOnly = False,
          cookie_secure = secure req, maxAge = None\<rparr>]"
  proof (intro impI, elim conjE)
    assume "authorization req = None \<or> authorization req = Some []"
      "cookies req cookieNames_refresh = Some rjwt" "rjwt \<noteq> []"
      "jwt_verify lib (Some rjwt) (secret options) (opt_iss options) = Inr rd"
      "scope rd = ScopeString ''refresh''"
      "refreshSub options w (sub rd) = (Inr (sub rd), w')"
      "cookies req cookieNames_session = Some sjwt" "sjwt \<noteq> []"
      "jwt_verify lib (Some sjwt) (secret options) (opt_iss options) = Inl err"
      "jwt_sign lib \<lparr>jti = uuidV4 e 0, iss = opt_iss options, sub = sub rd,
          scope = ScopeString ''session''\<rparr> (secret options)
          (sessionMaxAge options div 1000) = Inr njwt"
    then show "next_calls (doRouteAssociateAndRefresh lib e options req (fresh_state w)) =
        [None] \<and>
      res_cookies (doRouteAssociateAndRefresh lib e options req (fresh_state w)) =
        [\<lparr>cookie_name = cookieNames_session, cookie_value = njwt, httpOnly = False,
          cookie_secure = secure req, maxAge = None\<rparr>]"
      by (rule association_drops_session_cookie_error)
  qed
  have c6: "\<not> mutation (session st) \<and>
      (authorization req = None \<or> authorization req = Some []) \<longrightarrow>
      doRouteAuthenticateForMutation lib options req st =
        call_next (Some (httpErrors 401 ''credentials required'')) st"
  proof (intro impI, elim conjE)
    assume m: "\<not> mutation (session st)"
      and a: "authorization req = None \<or> authorization req = Some []"
    from m header_absent [OF a, of lib options]
    show "doRouteAuthenticateForMutation lib options req st =
        call_next (Some (httpErrors 401 ''credentials required'')) st"
      by (simp add: doRouteAuthenticateForMutation_def)
  qed
  have c7: "\<not> mutation (session st) \<and>
      authenticateHeaderIfPresent lib req options = Inr (Some d) \<and>
      sub d \<noteq> session_sub (session st) \<longrightarrow>
      doRouteAuthenticateForMutation lib options req st =
        call_next (Some (httpErrors 401 ''credentials mismatch'')) st"
    by (simp add: doRouteAuthenticateForMutation_def)
  have c8: "jwt_verify lib pjwt (secret options) (opt_iss options) = Inl err \<longrightarrow>
      promiseAuthenticateForMutation lib options pjwt = Inl err"
    by (intro impI, rule promise_on_verification_failure)
  have c9: "status (httpErrors 401 ''credentials bad format'') = Some 401 \<and>
    status (httpErrors 401 ''credentials bad scheme'') = Some 401 \<and>
    status (httpErrors 401 ''credentials required'') = Some 401 \<and>
    status (httpErrors 401 ''credentials mismatch'') = Some 401"
    by (simp add: httpErrors_def)
  have c10: "Some err \<in> set (next_calls
        (doRouteAssociateAndRefresh lib e options req (fresh_state w))) \<longrightarrow>
      err \<in> set [httpErrors 401 ''credentials bad format'',
                 httpErrors 401 ''credentials bad scheme''] \<or>
      (\<exists>t. jwt_verify lib t (secret options) (opt_iss options) = Inl err) \<or>
      (\<exists>p ttl. jwt_sign lib p (secret options) ttl = Inl err) \<or>
      (\<exists>w0 s w1. refreshSub options w0 s = (Inl err, w1)) \<or>
      err = typeError ''sub''"
  proof
    assume "Some err \<in> set (next_calls
        (doRouteAssociateAndRefresh lib e options req (fresh_state w)))"
    from doRoute_errors [OF this]
    show "err \<in> set [httpErrors 401 ''credentials bad format'',
                 httpErrors 401 ''credentials bad scheme''] \<or>
      (\<exists>t. jwt_verify lib t (secret options) (opt_iss options) = Inl err) \<or>
      (\<exists>p ttl. jwt_sign lib p (secret options) ttl = Inl err) \<or>
      (\<exists>w0 s w1. refreshSub options w0 s = (Inl err, w1)) \<or>
      err = typeError ''sub''"
      by (auto simp: fresh_state_def)
  qed
  have c11: "next_calls (doRouteAuthenticateForMutation lib options req st) =
        next_calls st @ [Some err] \<longrightarrow>
      err \<in> set [httpErrors 401 ''credentials bad format'',
                 httpErrors 401 ''credentials bad scheme'',
                 httpErrors 401 ''credentials required'',
                 httpErrors 401 ''credentials mismatch''] \<or>
      (\<exists>t. jwt_verify lib t (secret options) (opt_iss options) = Inl err)"
  proof
    assume "next_calls (doRouteAuthenticateForMutation lib options req st) =
        next_calls st @ [Some err]"
    from guard_errors [OF this]
    show "err \<in> set [httpErrors 401 ''credentials bad format'',
                 httpErrors 401 ''credentials bad scheme'',
                 httpErrors 401 ''credentials required'',
                 httpErrors 401 ''credentials mismatch''] \<or>
      (\<exists>t. jwt_verify lib t (secret options) (opt_iss options) = Inl err)"
      by auto
  qed
  show ?thesis
    by (rule conjI [OF c1 conjI [OF c2 conjI [OF c3 conjI [OF c4 conjI [OF c5
        conjI [OF c6 conjI [OF c7 conjI [OF c8 conjI [OF c9 conjI [OF c10 c11]]]]]]]]]])
qed

theorem core_errors_classified_witness:
  "authorization malformed_header_request = Some ''Bearer S1 extra'' \<and>
   drop 2 (split CHR '' '' ''Bearer S1 extra'') \<noteq> [] \<and>
   doRouteAssociateAndRefresh (table_library circulating) sample_env confirming_options
     malformed_header_request (fresh_state ()) =
     call_next (Some (httpErrors 401 ''credentials bad format'')) (fresh_state ()) \<and>
   authorization basic_header_request = Some ''Basic S1'' \<and>
   drop 2 (split CHR '' '' ''Basic S1'') = [] \<and>
   \<not> is_bearer (hd (split CHR '' '' ''Basic S1'')) \<and>
   doRouteAssociateAndRefresh (table_library circulating) sample_env confirming_options
     basic_header_request (fresh_state ()) =
     call_next (Some (httpErrors 401 ''credentials bad scheme'')) (fresh_state ()) \<and>
   authorization forged_header_request = Some (''Bearer '' @ ''forged'') \<and>
   jwt_verify (table_library circulating) (Some ''forged'') (secret confirming_options)
     (opt_iss confirming_options) = Inl (jwtError ''jwt malformed'') \<and>
   doRouteAssociateAndRefresh (table_library circulating) sample_env confirming_options
     forged_header_request (fresh_state ()) =
     call_next (Some (jwtError ''jwt malformed'')) (fresh_state ()) \<and>
   cookies forged_cookie_request cookieNames_refresh = Some ''forged'' \<and>
   doRouteAssociateAndRefresh (table_library circulating) sample_env confirming_options
     forged_cookie_request (fresh_state ()) =
     call_next (Some (jwtError ''jwt malformed'')) (fresh_state ()) \<and>
   cookies forged_session_cookie_request cookieNames_refresh = Some ''R1'' \<and>
   cookies forged_session_cookie_request cookieNames_session = Some ''forged'' \<and>
   next_calls (doRouteAssociateAndRefresh (table_library circulating) sample_env
     confirming_options forged_session_cookie_request (fresh_state ())) = [None] \<and>
   res_cookies (doRouteAssociateAndRefresh (table_library circulating) sample_env
     confirming_options forged_session_cookie_request (fresh_state ())) =
     [\<lparr>cookie_name = cookieNames_session, cookie_value = ''session-for-t2abc'',
       httpOnly = False, cookie_secure = secure forged_session_cookie_request,
       maxAge = None\<rparr>] \<and>
   \<not> mutation (session cookie_only_state) \<and>
   doRouteAuthenticateForMutation (table_library circulating) confirming_options
     bare_request cookie_only_state =
     call_next (Some (httpErrors 401 ''credentials required'')) cookie_only_state \<and>
   \<not> mutation (session other_subject_state) \<and>
   sub session_claims \<noteq> session_sub (session other_subject_state) \<and>
   doRouteAuthenticateForMutation (table_library circulating) confirming_options
     header_request other_subject_state =
     call_next (Some (httpErrors 401 ''credentials mismatch'')) other_subject_state \<and>
   promiseAuthenticateForMutation (table_library circulating) confirming_options
     (Some ''forged'') = Inl (jwtError ''jwt malformed'') \<and>
   Some (httpErrors 401 ''credentials bad format'') \<in> set (next_calls
     (doRouteAssociateAndRefresh (table_library circulating) sample_env confirming_options
        malformed_header_request (fresh_state ()))) \<and>
   next_calls (doRouteAuthenticateForMutation (table_library circulating) confirming_options
     bare_request cookie_only_state) =
     next_calls cookie_only_state @ [Some (httpErrors 401 ''credentials required'')]"
proof -
  note T = core_errors_classified [where lib = "table_library circulating"
      and e = sample_env and options = confirming_options and w = "()"]
  have a1: "authorization malformed_header_request = Some ''Bearer S1 extra''"
    by (simp add: malformed_header_request_def)
  have a2: "drop 2 (split CHR '' '' ''Bearer S1 extra'') \<noteq> []"
    by simp
  have a0: "''Bearer S1 extra'' \<noteq> []"
    by simp
  note a3 = T [where req = malformed_header_request and h = "''Bearer S1 extra''",
      THEN conjunct1, THEN mp, OF conjI [OF a1 conjI [OF a0 a2]], THEN conjunct1]
  have b1: "authorization basic_header_request = Some ''Basic S1''"
    by (simp add: basic_header_request_def)
  have b2: "drop 2 (split CHR '' '' ''Basic S1'') = []"
    by simp
  have b3: "\<not> is_bearer (hd (split CHR '' '' ''Basic S1''))"
    by (simp add: is_bearer_def)
  have b0: "''Basic S1'' \<noteq> []"
    by simp
  note b4 = T [where req = basic_header_request and h = "''Basic S1''",
      THEN conjunct2, THEN conjunct1, THEN mp,
      OF conjI [OF b1 conjI [OF b0 conjI [OF b2 b3]]], THEN conjunct1]
  have c1: "authorization forged_header_request = Some (''Bearer '' @ ''forged'')"
    by (simp add: forged_header_request_def)
  have c0: "CHR '' '' \<notin> set ''forged''"
    by simp
  note c2 = forged_token_sample
  note c3 = T [where req = forged_header_request and tok = "''forged''"
      and err = "jwtError ''jwt malformed''",
      THEN conjunct2, THEN conjunct2, THEN conjunct1, THEN mp,
      OF conjI [OF c1 conjI [OF c0 c2]], THEN conjunct1]
  have d0: "authorization forged_cookie_request = None \<or>
      authorization forged_cookie_request = Some []"
    by (simp add: forged_cookie_request_def)
  have d1: "cookies forged_cookie_request cookieNames_refresh = Some ''forged''"
    by (simp add: forged_cookie_request_def)
  have d2: "''forged'' \<noteq> []"
    by simp
  note d3 = T [where req = forged_cookie_request and jwt = "''forged''"
      and err = "jwtError ''jwt malformed''",
      THEN conjunct2, THEN conjunct2, THEN conjunct2, THEN conjunct1, THEN mp,
      OF conjI [OF d0 conjI [OF d1 conjI [OF d2 c2]]]]
  have e0: "authorization forged_session_cookie_request = None \<or>
      authorization forged_session_cookie_request = Some []"
    by (simp add: forged_session_cookie_request_def)
  have e1: "cookies forged_session_cookie_request cookieNames_refresh = Some ''R1''"
    by (simp add: forged_session_cookie_request_def cookieNames_refresh_def
        cookieNames_session_def)
  have e2: "cookies forged_session_cookie_request cookieNames_session = Some ''forged''"
    by (simp add: forged_session_cookie_request_def)
  have e3: "''R1'' \<noteq> []"
    by simp
  have e4: "scope refresh_claims = ScopeString ''refresh''"
    by (simp add: refresh_claims_def)
  have e5: "refreshSub confirming_options () (sub refresh_claims) =
      (Inr (sub refresh_claims), ())"
    by (simp add: confirming_options_def)
  note e6 = T [where req = forged_session_cookie_request and rjwt = "''R1''"
      and rd = refresh_claims and w' = "()" and sjwt = "''forged''"
      and err = "jwtError ''jwt malformed''" and njwt = "''session-for-t2abc''",
      THEN conjunct2, THEN conjunct2, THEN conjunct2, THEN conjunct2, THEN conjunct1,
      THEN mp,
      OF conjI [OF e0 conjI [OF e1 conjI [OF e3 conjI [OF refresh_cookie_sample
        conjI [OF e4 conjI [OF e5 conjI [OF e2 conjI [OF d2 conjI [OF c2
        session_signing_sample]]]]]]]]]]
  have f1: "\<not> mutation (session cookie_only_state)"
    by (simp add: cookie_only_state_def empty_session_def)
  have f0: "authorization bare_request = None \<or> authorization bare_request = Some []"
    by (simp add: bare_request_def)
  note f2 = T [where req = bare_request and st = cookie_only_state,
      THEN conjunct2, THEN conjunct2, THEN conjunct2, THEN conjunct2, THEN conjunct2,
      THEN conjunct1, THEN mp, OF conjI [OF f1 f0]]
  have g1: "\<not> mutation (session other_subject_state)"
    by (simp add: other_subject_state_def empty_session_def)
  have g2: "sub session_claims \<noteq> session_sub (session other_subject_state)"
    by (simp add: other_subject_state_def session_claims_def)
  note g3 = T [where req = header_request and st = other_subject_state
      and d = session_claims,
      THEN conjunct2, THEN conjunct2, THEN conjunct2, THEN conjunct2, THEN conjunct2,
      THEN conjunct2, THEN conjunct1, THEN mp, OF conjI [OF g1 conjI [OF header_sample g2]]]
  note h1 = T [where pjwt = "Some ''forged''" and err = "jwtError ''jwt malformed''",
      THEN conjunct2, THEN conjunct2, THEN conjunct2, THEN conjunct2, THEN conjunct2,
      THEN conjunct2, THEN conjunct2, THEN conjunct1, THEN mp, OF c2]
  have i1: "Some (httpErrors 401 ''credentials bad format'') \<in> set (next_calls
     (doRouteAssociateAndRefresh (table_library circulating) sample_env confirming_options
        malformed_header_request (fresh_state ())))"
    unfolding a3 by (simp add: call_next_def)
  have j1: "next_calls (doRouteAuthenticateForMutation (table_library circulating)
     confirming_options bare_request cookie_only_state) =
     next_calls cookie_only_state @ [Some (httpErrors 401 ''credentials required'')]"
    unfolding f2 by (simp add: call_next_def)
  note e7 = e6 [THEN conjunct1]
  note e8 = e6 [THEN conjunct2]
  show ?thesis
    by (intro conjI) (fact a1 a2 a3 b1 b2 b3 b4 c1 c2 c3 d1 d3 e1 e2 e7 e8 f1 f2 g1 g2 g3 h1
        i1 j1)+
qed

text \<open>
  Claim C2 as stated has every verification failure end the request with status 401. A
  request whose refresh cookie does not verify ends with the library's error; with a
  library whose errors carry no status, as those of \<open>jsonwebtoken\<close> do, that error has
  none, and the server's error handler, which answers 401, 403 and 404 only, passes it on.
\<close>

theorem verification_failure_is_not_a_401:
  "next_calls (doRouteAssociateAndRefresh (table_library circulating) sample_env
      confirming_options forged_cookie_request (fresh_state ())) =
     [Some (jwtError ''jwt malformed'')] \<and>
   status (jwtError ''jwt malformed'') = None \<and>
   errorHandler (Some (jwtError ''jwt malformed'')) = PassOn (Some (jwtError ''jwt malformed''))"
  by (simp add: doRouteAssociateAndRefresh_def authenticateHeaderIfPresent_def
      authenticateCookie_def forged_cookie_request_def forged_token_sample truthy_def
      fresh_state_def empty_session_def call_next_def jwtError_def errorHandler_def
      confirming_options_def table_library_def circulating_def)

section \<open>An almost expired session credential\<close>

text \<open>
  Claim C1 at a concrete request. The header presents a session token that expires in
  half a second, so that by \<open>almostExpired\<close>, applied to the options object, it is
  almost expired; the refresh cookie does not verify. The claim has the request end with
  a 401, the context cleared and no cookie minted. The middleware calls \<open>almostExpired\<close>
  with the number \<open>options.sessionEarlyRefresh\<close> in place of the options object, gets
  \<open>false\<close>, and continues without an error on the established context, writing no
  cookie.
\<close>

theorem almost_expired_session_is_not_refreshed:
  "almostExpired sample_env session_claims (JsObject confirming_options) \<and>
   authenticateCookie (table_library circulating) stale_refresh_request cookieNames_refresh
     confirming_options = Inl (jwtError ''jwt malformed'') \<and>
   doRouteAssociateAndRefresh (table_library circulating) sample_env confirming_options
     stale_refresh_request (fresh_state ()) = call_next None established_state \<and>
   next_calls (call_next None established_state) = [None] \<and>
   session_sub (session (call_next None established_state)) = Some ''t2abc'' \<and>
   mutation (session (call_next None established_state)) \<and>
   res_cookies (call_next None established_state) = []"
proof -
  have a: "almostExpired sample_env session_claims (JsObject confirming_options)"
    by (simp add: almostExpired_def get_sessionEarlyRefresh_def sample_env_def
        session_claims_def confirming_options_def)
  have c: "authenticateCookie (table_library circulating) stale_refresh_request
      cookieNames_refresh confirming_options = Inl (jwtError ''jwt malformed'')"
    by (simp add: authenticateCookie_def stale_refresh_request_def forged_token_sample)
  have h: "authenticateHeaderIfPresent (table_library circulating) stale_refresh_request
      confirming_options = Inr (Some session_claims)"
    by (simp add: authenticateHeaderIfPresent_def stale_refresh_request_def is_bearer_def
        table_library_def circulating_def confirming_options_def session_claims_def Let_def)
  have m: "\<not> cookie_missing stale_refresh_request cookieNames_refresh"
    by (simp add: cookie_missing_def stale_refresh_request_def)
  have s: "scope session_claims \<noteq> ScopeString ''refresh''"
    "sub session_claims = Some ''t2abc''"
    "scopeArray (scope session_claims) = [''session'', ''sensitive'']"
    by (simp_all add: session_claims_def scopeArray_def)
  have d: "doRouteAssociateAndRefresh (table_library circulating) sample_env
      confirming_options stale_refresh_request (fresh_state ()) =
      call_next None established_state"
    using h m s
    by (simp add: doRouteAssociateAndRefresh_def afterRefreshSub_def get_sub_def
        nextWithExistingSession_Some truthy_def fresh_state_def empty_session_def
        established_state_def extend_session_def confirming_options_def Let_def)
  have r: "next_calls (call_next None established_state) = [None]"
    "session_sub (session (call_next None established_state)) = Some ''t2abc''"
    "mutation (session (call_next None established_state))"
    "res_cookies (call_next None established_state) = []"
    by (simp_all add: call_next_def established_state_def fresh_state_def)
  from a c d r show ?thesis
    by (intro conjI)
qed

text \<open>
  The branch that re-verifies the refresh cookie, run on the context this request
  establishes: \<open>next\<close> is called with the error and then once more, and a session
  cookie is minted for the absent subject in between.
\<close>

lemma refresh_branch_continues_after_failure:
  "next_calls (refreshSessionFromCookie (table_library circulating) sample_env
     confirming_options stale_refresh_request established_state) =
     [Some (jwtError ''jwt malformed''), None] \<and>
   map cookie_value (res_cookies (refreshSessionFromCookie (table_library circulating)
     sample_env confirming_options stale_refresh_request established_state)) =
     [''session-for-undefined'']"
proof -
  have c: "authenticateCookie (table_library circulating) stale_refresh_request
      cookieNames_refresh confirming_options = Inl (jwtError ''jwt malformed'')"
    by (simp add: authenticateCookie_def stale_refresh_request_def forged_token_sample)
  show ?thesis
    unfolding refreshSessionFromCookie_def Let_def c
    by (simp add: newSessionCookie_def call_next_def established_state_def
        fresh_state_def empty_session_def table_library_def token_name_def Let_def)
qed

section \<open>Signing and verifying\<close>

text \<open>
  Claim C9, on the codec modelled from the spec. A payload signed with a secret at one
  time verifies, with the same secret and the issuer of the payload, at any time before
  its expiry, and the claims returned have the \<open>jti\<close>, \<open>iss\<close>, \<open>sub\<close> and
  \<open>scope\<close> of the payload. For the module: the session cookie \<open>newSessionCookie\<close>
  mints verifies under the same options until it expires, with the claims it was signed
  with, and \<open>promiseAuthenticateForMutation\<close> resolves to the subject it was minted
  for.
\<close>

theorem signed_credential_verifies_unchanged:
  "(t1 div 1000 < t0 div 1000 + ttl \<longrightarrow>
      (\<exists>tok c. jwt_sign (token_codec t0) p k ttl = Inr tok \<and>
         jwt_verify (token_codec t1) (Some tok) k (iss p) = Inr c \<and>
         jti c = jti p \<and> iss c = iss p \<and> sub c = sub p \<and> scope c = scope p)) \<and>
   (t1 div 1000 < t0 div 1000 + sessionMaxAge options div 1000 \<longrightarrow>
      (\<exists>tok st'. newSessionCookie (token_codec t0) e req s options st = (Inr tok, st') \<and>
         jwt_verify (token_codec t1) (Some tok) (secret options) (opt_iss options) =
           Inr \<lparr>jti = uuidV4 e (uuid_calls st), iss = opt_iss options, sub = s,
                scope = ScopeString ''session'', iat = t0 div 1000,
                exp = t0 div 1000 + sessionMaxAge options div 1000\<rparr> \<and>
         promiseAuthenticateForMutation (token_codec t1) options (Some tok) = Inr s))"
proof (intro conjI impI)
  assume "t1 div 1000 < t0 div 1000 + ttl"
  note r = token_codec_round_trip [OF this, of p k]
  show "\<exists>tok c. jwt_sign (token_codec t0) p k ttl = Inr tok \<and>
         jwt_verify (token_codec t1) (Some tok) k (iss p) = Inr c \<and>
         jti c = jti p \<and> iss c = iss p \<and> sub c = sub p \<and> scope c = scope p"
  proof (intro exI conjI)
    show "jwt_sign (token_codec t0) p k ttl =
       Inr (Signed \<lparr>jti = jti p, iss = iss p, sub = sub p, scope = scope p,
                    iat = t0 div 1000, exp = t0 div 1000 + ttl\<rparr> k)"
      using r by (rule conjunct1)
    show "jwt_verify (token_codec t1)
       (Some (Signed \<lparr>jti = jti p, iss = iss p, sub = sub p, scope = scope p,
                      iat = t0 div 1000, exp = t0 div 1000 + ttl\<rparr> k)) k (iss p) =
       Inr \<lparr>jti = jti p, iss = iss p, sub = sub p, scope = scope p,
            iat = t0 div 1000, exp = t0 div 1000 + ttl\<rparr>"
      using r by (rule conjunct2)
  qed simp_all
next
  assume a: "t1 div 1000 < t0 div 1000 + sessionMaxAge options div 1000"
  define p where "p = \<lparr>jti = uuidV4 e (uuid_calls st), iss = opt_iss options, sub = s,
                 scope = ScopeString ''session''\<rparr>"
  define tok where "tok = Signed \<lparr>jti = jti p, iss = iss p, sub = sub p, scope = scope p,
      iat = t0 div 1000, exp = t0 div 1000 + sessionMaxAge options div 1000\<rparr> (secret options)"
  note r = token_codec_round_trip [OF a, of p "secret options", folded tok_def]
  have f: "jti p = uuidV4 e (uuid_calls st)" "iss p = opt_iss options" "sub p = s"
    "scope p = ScopeString ''session''"
    by (simp_all add: p_def)
  have m: "\<exists>st'. newSessionCookie (token_codec t0) e req s options st = (Inr tok, st')"
    using r by (simp add: newSessionCookie_def p_def [symmetric] Let_def)
  have v: "jwt_verify (token_codec t1) (Some tok) (secret options) (opt_iss options) =
           Inr \<lparr>jti = uuidV4 e (uuid_calls st), iss = opt_iss options, sub = s,
                scope = ScopeString ''session'', iat = t0 div 1000,
                exp = t0 div 1000 + sessionMaxAge options div 1000\<rparr>"
    using r f by simp
  then have "promiseAuthenticateForMutation (token_codec t1) options (Some tok) = Inr s"
    by (simp add: promiseAuthenticateForMutation_def)
  with m v show "\<exists>tok st'. newSessionCookie (token_codec t0) e req s options st =
         (Inr tok, st') \<and>
         jwt_verify (token_codec t1) (Some tok) (secret options) (opt_iss options) =
           Inr \<lparr>jti = uuidV4 e (uuid_calls st), iss = opt_iss options, sub = s,
                scope = ScopeString ''session'', iat = t0 div 1000,
                exp = t0 div 1000 + sessionMaxAge options div 1000\<rparr> \<and>
         promiseAuthenticateForMutation (token_codec t1) options (Some tok) = Inr s"
    by blast
qed

theorem signed_credential_verifies_unchanged_witness:
  "(999500::int) div 1000 < 700000 div 1000 + 300 \<and>
   (999500::int) div 1000 < 700000 div 1000 + sessionMaxAge confirming_options div 1000 \<and>
   jwt_verify (token_codec 999500)
     (Some (Signed \<lparr>jti = ''jti-1'', iss = ''http://localhost:3000'', sub = Some ''t2abc'',
                    scope = ScopeString ''session'', iat = 700, exp = 1000\<rparr> ''keyboard-cat''))
     ''keyboard-cat'' ''http://localhost:3000'' =
     Inr \<lparr>jti = ''jti-1'', iss = ''http://localhost:3000'', sub = Some ''t2abc'',
          scope = ScopeString ''session'', iat = 700, exp = 1000\<rparr> \<and>
   (\<exists>tok st'. newSessionCookie (token_codec 700000) sample_env
        \<lparr>authorization = None, cookies = Map.empty, secure = False\<rparr> (Some ''t2abc'')
        confirming_options (fresh_state ()) = (Inr tok, st') \<and>
      promiseAuthenticateForMutation (token_codec 999500) confirming_options (Some tok) =
        Inr (Some ''t2abc''))"
proof -
  have a: "(999500::int) div 1000 < 700000 div 1000 + 300"
    by simp
  have b: "(999500::int) div 1000 < 700000 div 1000 + sessionMaxAge confirming_options div 1000"
    by (simp add: confirming_options_def)
  note t = signed_credential_verifies_unchanged [of 999500 700000 300
      "\<lparr>jti = ''jti-1'', iss = ''http://localhost:3000'', sub = Some ''t2abc'',
        scope = ScopeString ''session''\<rparr>" "''keyboard-cat''" confirming_options sample_env
      "\<lparr>authorization = None, cookies = Map.empty, secure = False\<rparr>" "Some ''t2abc''"
      "fresh_state ()"]
  from t [THEN conjunct1, rule_format, OF a]
  have c: "jwt_verify (token_codec 999500)
     (Some (Signed \<lparr>jti = ''jti-1'', iss = ''http://localhost:3000'', sub = Some ''t2abc'',
                    scope = ScopeString ''session'', iat = 700, exp = 1000\<rparr> ''keyboard-cat''))
     ''keyboard-cat'' ''http://localhost:3000'' =
     Inr \<lparr>jti = ''jti-1'', iss = ''http://localhost:3000'', sub = Some ''t2abc'',
          scope = ScopeString ''session'', iat = 700, exp = 1000\<rparr>"
    by (auto simp: token_codec_def)
  from t [THEN conjunct2, rule_format, OF b]
  have d: "\<exists>tok st'. newSessionCookie (token_codec 700000) sample_env
        \<lparr>authorization = None, cookies = Map.empty, secure = False\<rparr> (Some ''t2abc'')
        confirming_options (fresh_state ()) = (Inr tok, st') \<and>
      promiseAuthenticateForMutation (token_codec 999500) confirming_options (Some tok) =
        Inr (Some ''t2abc'')"
    by blast
  from a b c d show ?thesis
    by (intro conjI)
qed

end
